theory Spec2Isabelle
  imports Main "HOL-Library.Char_ord" "HOL-Library.List_Lexorder"
begin

section \<open>Python values, graph objects and the instance\<close>

text \<open>
  The class \<^verbatim>\<open>DyNeuGraph\<close> of \<^verbatim>\<open>dyneusr/core.py\<close> is glue around dictionaries,
  numpy arrays, a pandas table and networkx graph objects. Plain data is a value of
  \<open>py\<close>; a dictionary is an association list in insertion order. An array
  (\<open>PArray\<close>) lists its items along the first axis, so a matrix is an array of arrays;
  arrays have at least one axis and the entries of the matrices are integers (they are
  counts; only zero against non-zero is ever tested). Keys are compared with HOL
  equality: Python's identification of \<^verbatim>\<open>True\<close> with \<^verbatim>\<open>1\<close> as a key is not part of the
  model.
\<close>

text \<open>
  The exceptions: those of Python and networkx that \<^verbatim>\<open>core.py\<close> can meet, and
  \<open>ToolsError\<close> for whatever the functions of \<^verbatim>\<open>tools\<close> and \<^verbatim>\<open>visuals\<close> raise.
\<close>

datatype error =
    TypeError | AttributeError | KeyError | ValueError
  | UnboundLocalError | NameError | NetworkXError | ToolsError string

datatype py =
    PNone
  | PBool bool
  | PInt int
  | PStr string
  | PList "py list"
  | PTuple "py list"
  | PDict "(py \<times> py) list"
  | PArray "py list"

type_synonym pydict = "(py \<times> py) list"
type_synonym addr = nat

text \<open>
  A networkx graph object: \<^verbatim>\<open>G.graph\<close>, the nodes with their attribute dictionaries and
  the edges \<open>(u, v, key, attributes)\<close>, each in insertion order.
\<close>

record nxgraph =
  directed :: bool
  multigraph :: bool
  g_graph :: pydict
  g_nodes :: "(py \<times> pydict) list"
  g_edges :: "(py \<times> py \<times> py \<times> pydict) list"

text \<open>
  A pandas DataFrame as far as \<^verbatim>\<open>fit\<close> looks at it: the row labels of its index, the
  name of the index and the column names.
\<close>

record 'l frame =
  row_labels :: "'l list"
  index_name :: "string option"
  columns :: "string list"

text \<open>
  What an argument or an attribute of the instance can be: plain data, a reference to a
  graph object of the heap, or a DataFrame. Graph objects are mutable and shared (the
  attributes \<^verbatim>\<open>G_\<close> and \<^verbatim>\<open>G\<close> are the same object), so they live in a heap and are
  named by address. Every address holds a graph; the addresses below \<open>fresh\<close> are
  the ones in use. The values inside a graph, a dictionary or a list are plain data:
  no method of the class changes such a value in place, so that it does not matter
  that Python shares them between a graph and its copy.
\<close>

datatype obj = Val py | Graph addr | Frame "py frame"

record heap =
  graphs :: "addr \<Rightarrow> nxgraph"
  fresh :: addr

text \<open>
  \<^verbatim>\<open>self\<close>: the dictionary \<^verbatim>\<open>cache_\<close>, whose keys are keyword names, and the other
  attributes by name; an attribute that was never assigned is \<open>None\<close> of the map.
\<close>

record dyneugraph =
  cache_dict :: "(string \<times> obj) list"
  attrs :: "string \<rightharpoonup> obj"

type_synonym world = "heap \<times> dyneugraph"

definition alloc :: "heap \<Rightarrow> nxgraph \<Rightarrow> heap \<times> addr" where
  "alloc h g = (h\<lparr>graphs := (graphs h)(fresh h := g), fresh := Suc (fresh h)\<rparr>, fresh h)"

definition setattr :: "string \<Rightarrow> obj \<Rightarrow> dyneugraph \<Rightarrow> dyneugraph" where
  "setattr name v self = self\<lparr>attrs := (attrs self)(name \<mapsto> v)\<rparr>"

subsection \<open>Dictionaries\<close>

fun dict_get :: "('k \<times> 'v) list \<Rightarrow> 'k \<Rightarrow> 'v option" where
  "dict_get [] k = None"
| "dict_get ((k', v) # d) k = (if k' = k then Some v else dict_get d k)"

text \<open>\<^verbatim>\<open>d[k] = v\<close>: an existing key keeps its place, a new key goes last.\<close>

fun dict_set :: "('k \<times> 'v) list \<Rightarrow> 'k \<Rightarrow> 'v \<Rightarrow> ('k \<times> 'v) list" where
  "dict_set [] k v = [(k, v)]"
| "dict_set ((k', v') # d) k v = (if k' = k then (k, v) # d else (k', v') # dict_set d k v)"

text \<open>\<^verbatim>\<open>d.update(e)\<close>, also \<^verbatim>\<open>dict(d, **e)\<close> and \<^verbatim>\<open>dict(pairs)\<close> from the empty dictionary.\<close>

fun dict_update :: "('k \<times> 'v) list \<Rightarrow> ('k \<times> 'v) list \<Rightarrow> ('k \<times> 'v) list" where
  "dict_update d [] = d"
| "dict_update d ((k, v) # e) = dict_update (dict_set d k v) e"

fun hashable :: "py \<Rightarrow> bool" where
  "hashable (PList _) = False"
| "hashable (PDict _) = False"
| "hashable (PArray _) = False"
| "hashable (PTuple xs) = list_all hashable xs"
| "hashable _ = True"

fun obj_hashable :: "obj \<Rightarrow> bool" where
  "obj_hashable (Val v) = hashable v"
| "obj_hashable (Graph _) = True"
| "obj_hashable (Frame _) = False"

section \<open>\<^verbatim>\<open>DyNeuGraph.cache\<close>\<close>

text \<open>
  \<^verbatim>\<open>self.cache_.get(k)\<close>: hashing an unhashable key raises; a key that is not a string
  equals no key of the dictionary.
\<close>

fun cache_get :: "(string \<times> obj) list \<Rightarrow> obj \<Rightarrow> error + obj" where
  "cache_get d (Val (PStr k)) =
     (case dict_get d k of None \<Rightarrow> Inr (Val PNone) | Some v \<Rightarrow> Inr v)"
| "cache_get d k = (if obj_hashable k then Inr (Val PNone) else Inl TypeError)"

text \<open>
  The loop of lines 59 to 63: a key whose \<^verbatim>\<open>get\<close> is \<^verbatim>\<open>None\<close> is skipped, the first
  other one is returned.
\<close>

fun cache_scan :: "(string \<times> obj) list \<Rightarrow> obj list \<Rightarrow> error + obj" where
  "cache_scan d [] = Inr (Val PNone)"
| "cache_scan d (k # ks) =
     (case cache_get d k of
        Inl e \<Rightarrow> Inl e
      | Inr v \<Rightarrow> (if v = Val PNone then cache_scan d ks else Inr v))"

datatype cache_result = Value obj | Whole "(string \<times> obj) list"

definition cache :: "obj list \<Rightarrow> (string \<times> obj) list \<Rightarrow> dyneugraph \<Rightarrow> (error + cache_result) \<times> dyneugraph" where
  "cache args kwargs self =
     (if length args \<noteq> 0 then
        (case cache_scan (cache_dict self) args of
           Inl e \<Rightarrow> (Inl e, self)
         | Inr v \<Rightarrow> (Inr (Value v), self))
      else
        (let d = dict_update (cache_dict self) kwargs
         in (Inr (Whole d), self\<lparr>cache_dict := d\<rparr>)))"

section \<open>The mixtures of a temporal connectivity matrix\<close>

text \<open>
  Line 122 (and 191): \<^verbatim>\<open>[_.nonzero()[0] for _ in TCM]\<close>. For a row of a matrix,
  \<^verbatim>\<open>nonzero()[0]\<close> is the array of the positions of its non-zero entries, ascending.
\<close>

type_synonym matrix = "int list list"

definition nonzero :: "int list \<Rightarrow> nat list" where
  "nonzero row = filter (\<lambda>j. row ! j \<noteq> 0) [0..<length row]"

definition mixtures :: "matrix \<Rightarrow> nat list list" where
  "mixtures TCM = map nonzero TCM"

section \<open>Python and library operations\<close>

definition seq :: "error + 'a \<Rightarrow> ('a \<Rightarrow> error + 'b) \<Rightarrow> error + 'b" where
  "seq m f = (case m of Inl e \<Rightarrow> Inl e | Inr x \<Rightarrow> f x)"

text \<open>Iteration (\<^verbatim>\<open>for _ in v\<close>, \<^verbatim>\<open>zip\<close>, \<^verbatim>\<open>list(v)\<close>) and \<^verbatim>\<open>len\<close>.\<close>

fun py_iter :: "py \<Rightarrow> error + py list" where
  "py_iter (PList xs) = Inr xs"
| "py_iter (PTuple xs) = Inr xs"
| "py_iter (PArray xs) = Inr xs"
| "py_iter (PDict d) = Inr (map fst d)"
| "py_iter (PStr s) = Inr (map (\<lambda>c. PStr [c]) s)"
| "py_iter _ = Inl TypeError"

fun py_len :: "py \<Rightarrow> error + nat" where
  "py_len (PList xs) = Inr (length xs)"
| "py_len (PTuple xs) = Inr (length xs)"
| "py_len (PArray xs) = Inr (length xs)"
| "py_len (PDict d) = Inr (length d)"
| "py_len (PStr s) = Inr (length s)"
| "py_len _ = Inl TypeError"

text \<open>Iterating a graph gives its nodes, iterating a DataFrame its column names.\<close>

fun obj_iter :: "heap \<Rightarrow> obj \<Rightarrow> error + py list" where
  "obj_iter h (Val v) = py_iter v"
| "obj_iter h (Graph a) = Inr (map fst (g_nodes (graphs h a)))"
| "obj_iter h (Frame f) = Inr (map PStr (columns f))"

fun obj_len :: "heap \<Rightarrow> obj \<Rightarrow> error + nat" where
  "obj_len h (Val v) = py_len v"
| "obj_len h (Graph a) = Inr (length (g_nodes (graphs h a)))"
| "obj_len h (Frame f) = Inr (length (row_labels f))"

definition getitem :: "pydict \<Rightarrow> py \<Rightarrow> error + py" where
  "getitem d k = (case dict_get d k of None \<Rightarrow> Inl KeyError | Some v \<Rightarrow> Inr v)"

text \<open>\<^verbatim>\<open>v.items()\<close>: of the plain values only a dictionary has the method.\<close>

fun items :: "py \<Rightarrow> error + pydict" where
  "items (PDict d) = Inr d"
| "items _ = Inl AttributeError"

text \<open>\<^verbatim>\<open>dict(pairs)\<close> and a dictionary comprehension hash every key.\<close>

definition dict_of :: "(py \<times> py) list \<Rightarrow> error + pydict" where
  "dict_of ps = (if list_all (\<lambda>p. hashable (fst p)) ps then Inr (dict_update [] ps) else Inl TypeError)"

definition arange :: "nat \<Rightarrow> py" where
  "arange n = PArray (map (\<lambda>i. PInt (int i)) [0..<n])"

definition np_sort :: "int list \<Rightarrow> int list" where
  "np_sort xs = sort xs"

text \<open>
  pandas, \<^verbatim>\<open>y.reset_index()\<close>: the old index becomes a column, named after the index, or
  \<^verbatim>\<open>index\<close> (\<^verbatim>\<open>level_0\<close> when there is a column \<^verbatim>\<open>index\<close>), which fails when a column
  of that name exists; the new index is \<^verbatim>\<open>RangeIndex(len(y))\<close>.
\<close>

definition reset_index :: "'l frame \<Rightarrow> error + int frame" where
  "reset_index f =
     (let name = (case index_name f of
                    Some n \<Rightarrow> n
                  | None \<Rightarrow> (if ''index'' \<in> set (columns f) then ''level_0'' else ''index''))
      in if name \<in> set (columns f) then Inl ValueError
         else Inr \<lparr>row_labels = map int [0..<length (row_labels f)], index_name = None,
                   columns = name # columns f\<rparr>)"

subsection \<open>networkx\<close>

text \<open>
  \<^verbatim>\<open>nx.node_link_data(g)\<close>: the nodes and the links are lists of dictionaries, a node's
  with its \<^verbatim>\<open>id\<close>, a link's with \<^verbatim>\<open>source\<close> and \<^verbatim>\<open>target\<close> (and \<^verbatim>\<open>key\<close> in a
  multigraph).
\<close>

definition node_link_data :: "nxgraph \<Rightarrow> pydict" where
  "node_link_data g =
     [(PStr ''directed'', PBool (directed g)),
      (PStr ''multigraph'', PBool (multigraph g)),
      (PStr ''graph'', PDict (g_graph g)),
      (PStr ''nodes'', PList (map (\<lambda>(n, d). PDict (dict_update d [(PStr ''id'', n)])) (g_nodes g))),
      (PStr ''links'',
         PList (map (\<lambda>(u, v, k, d).
                   PDict (dict_update d ([(PStr ''source'', u), (PStr ''target'', v)] @
                                         (if multigraph g then [(PStr ''key'', k)] else []))))
                 (g_edges g)))]"

text \<open>
  \<^verbatim>\<open>nx.set_node_attributes(G, values, name)\<close> with a dictionary \<^verbatim>\<open>values\<close>: for each of its
  nodes \<^verbatim>\<open>G.nodes[n][name] = values[n]\<close>, a node that the graph does not have being
  passed over (the \<^verbatim>\<open>KeyError\<close> is caught).
\<close>

fun set_node_attributes :: "(py \<times> pydict) list \<Rightarrow> pydict \<Rightarrow> py \<Rightarrow> (py \<times> pydict) list" where
  "set_node_attributes nodes [] name = nodes"
| "set_node_attributes nodes ((n, v) # values) name =
     set_node_attributes
       (map (\<lambda>(m, d). if m = n then (m, dict_set d name v) else (m, d)) nodes) values name"

text \<open>
  \<^verbatim>\<open>nx.set_edge_attributes(G, values, name)\<close>: the keys are pairs \<open>(u, v)\<close>, an edge of an
  undirected graph is found in either direction, a missing edge is passed over. On a
  multigraph the keys are unpacked as triples, which fails on a pair.
\<close>

fun set_edge_attributes :: "nxgraph \<Rightarrow> ((py \<times> py) \<times> py) list \<Rightarrow> py \<Rightarrow> error + nxgraph" where
  "set_edge_attributes g [] name = Inr g"
| "set_edge_attributes g (((u, v), x) # values) name =
     (if multigraph g then Inl ValueError
      else set_edge_attributes
             (g\<lparr>g_edges := map (\<lambda>(u', v', k, d).
                    if (u' = u \<and> v' = v) \<or> (\<not> directed g \<and> u' = v \<and> v' = u)
                    then (u', v', k, dict_set d name x) else (u', v', k, d)) (g_edges g)\<rparr>)
             values name)"

text \<open>
  \<^verbatim>\<open>nx.MultiGraph(TCM)\<close> on a two-dimensional array: the matrix has to be square, the
  nodes are \<open>0, ..., n - 1\<close>, and every non-zero entry on or above the diagonal is an
  edge that carries the entry as its weight.
\<close>

definition MultiGraph :: "matrix \<Rightarrow> error + nxgraph" where
  "MultiGraph A =
     (let n = length A in
      if \<not> list_all (\<lambda>row. length row = n) A then Inl NetworkXError
      else Inr \<lparr>directed = False, multigraph = True, g_graph = [],
                g_nodes = map (\<lambda>i. (PInt (int i), [])) [0..<n],
                g_edges = concat (map (\<lambda>i. map (\<lambda>j. (PInt (int i), PInt (int j), PInt 0,
                                                       [(PStr ''weight'', PInt (A ! i ! j))]))
                                              (filter (\<lambda>j. A ! i ! j \<noteq> 0 \<and> i \<le> j) [0..<n]))
                                  [0..<n])\<rparr>)"

subsection \<open>The collaborators that are not in \<^verbatim>\<open>core.py\<close>\<close>

text \<open>
  \<^verbatim>\<open>core.py\<close> calls \<^verbatim>\<open>tools.process_graph\<close>, \<^verbatim>\<open>tools.extract_matrices\<close> and three
  functions of \<^verbatim>\<open>visuals\<close>, whose code is elsewhere, and \<^verbatim>\<open>np.unique\<close>. They are
  parameters of the model: every theorem below holds whatever they compute and
  whenever they raise. The two tools return new objects and do not touch the instance
  (which they are not given); \<^verbatim>\<open>visuals.annotate\<close> is given the stored graph and may
  change it or any other graph object.
\<close>

record env =
  np_unique :: "py list \<Rightarrow> error + py"
  process_graph :: "pydict \<Rightarrow> obj \<Rightarrow> (string \<times> obj) list \<Rightarrow> error + nxgraph"
  extract_matrices :: "nxgraph \<Rightarrow> py option \<Rightarrow> error + (matrix \<times> matrix \<times> matrix)"
  visuals_annotate :: "addr \<Rightarrow> (string \<times> obj) list \<Rightarrow> heap \<Rightarrow> (error + (addr \<times> obj)) \<times> heap"
  plot_temporal_matrix :: "obj \<Rightarrow> (string \<times> obj) list \<Rightarrow> error + unit"
  visualize_force :: "obj \<Rightarrow> obj \<Rightarrow> (string \<times> obj) list \<Rightarrow> error + obj"

section \<open>\<^verbatim>\<open>DyNeuGraph.fit\<close>\<close>

text \<open>
  The graph argument is one of the three kinds the method distinguishes: nothing, a
  graph object or a serialized dictionary.
\<close>

datatype garg = NoGraph | GraphObject addr | Serialized pydict

fun obj_of_garg :: "garg \<Rightarrow> obj" where
  "obj_of_garg NoGraph = Val PNone"
| "obj_of_garg (GraphObject a) = Graph a"
| "obj_of_garg (Serialized d) = Val (PDict d)"

text \<open>
  The keyword arguments of a call, \<open>None\<close> for one that is not passed. \<^verbatim>\<open>node_data\<close> and
  \<^verbatim>\<open>edge_data\<close> are \<^verbatim>\<open>None\<close> (\<open>Some None\<close>) or a dictionary from attribute names to
  dictionaries over the nodes, or over the edges as pairs.
\<close>

record call =
  arg_G :: "garg option"
  arg_X :: "obj option"
  arg_y :: "obj option"
  arg_node_data :: "(py \<times> pydict) list option option"
  arg_edge_data :: "(py \<times> ((py \<times> py) \<times> py) list) list option option"
  arg_G_data :: "py option"
  arg_kwargs :: "(string \<times> obj) list"

text \<open>The signature of \<^verbatim>\<open>fit\<close> (line 70) with its defaults.\<close>

definition the_G :: "call \<Rightarrow> garg" where
  "the_G c = (case arg_G c of None \<Rightarrow> NoGraph | Some g \<Rightarrow> g)"

definition the_X :: "call \<Rightarrow> obj" where
  "the_X c = (case arg_X c of None \<Rightarrow> Val PNone | Some x \<Rightarrow> x)"

definition the_y :: "call \<Rightarrow> obj" where
  "the_y c = (case arg_y c of None \<Rightarrow> Val PNone | Some y \<Rightarrow> y)"

definition the_node_data :: "call \<Rightarrow> (py \<times> pydict) list option" where
  "the_node_data c = (case arg_node_data c of None \<Rightarrow> Some [] | Some d \<Rightarrow> d)"

definition the_edge_data :: "call \<Rightarrow> (py \<times> ((py \<times> py) \<times> py) list) list option" where
  "the_edge_data c = (case arg_edge_data c of None \<Rightarrow> Some [] | Some d \<Rightarrow> d)"

definition the_G_data :: "call \<Rightarrow> py" where
  "the_G_data c = (case arg_G_data c of None \<Rightarrow> PBool False | Some v \<Rightarrow> v)"

subsection \<open>Lines 84 to 92: the canonical graph\<close>

fun is_str :: "py \<Rightarrow> bool" where
  "is_str (PStr _) = True"
| "is_str _ = False"

definition skeleton :: pydict where
  "skeleton = [(PStr ''nodes'', PDict []), (PStr ''links'', PDict [])]"

text \<open>
  Line 92, \<^verbatim>\<open>dict(dict(nodes={}, links={}), **G)\<close>: the keys of \<^verbatim>\<open>G\<close> become keyword
  names and have to be strings.
\<close>

definition merge_defaults :: "pydict \<Rightarrow> error + pydict" where
  "merge_defaults G =
     (if list_all (\<lambda>p. is_str (fst p)) G then Inr (dict_update skeleton G) else Inl TypeError)"

definition canonical_graph :: "garg \<Rightarrow> heap \<Rightarrow> (error + pydict) \<times> heap" where
  "canonical_graph G h =
     (case G of
        GraphObject a \<Rightarrow>
          (let (h', g) = alloc h (graphs h a)
           in (merge_defaults (node_link_data (graphs h' g)), h'))
      | NoGraph \<Rightarrow> (merge_defaults [], h)
      | Serialized d \<Rightarrow> (merge_defaults d, h))"

subsection \<open>Lines 94 to 101: the node keys and the time indices\<close>

text \<open>Line 96: \<^verbatim>\<open>[_ for n,d in G['nodes'].items() for _ in d]\<close>.\<close>

fun members :: "pydict \<Rightarrow> error + py list" where
  "members [] = Inr []"
| "members ((n, d) # rest) =
     seq (py_iter d) (\<lambda>xs. seq (members rest) (\<lambda>ys. Inr (xs @ ys)))"

definition index_sets :: "env \<Rightarrow> heap \<Rightarrow> pydict \<Rightarrow> obj \<Rightarrow> error + (py \<times> py)" where
  "index_sets E h G y =
     seq (getitem G (PStr ''nodes'')) (\<lambda>nodes.
     seq (py_iter nodes) (\<lambda>ns.
     seq (np_unique E ns) (\<lambda>node_ids.
     seq (items nodes) (\<lambda>its.
     seq (members its) (\<lambda>ms.
     seq (np_unique E ms) (\<lambda>data_ids.
       if y \<noteq> Val PNone then
         (case y of
            Frame f \<Rightarrow>
              seq (reset_index f) (\<lambda>f'.
                Inr (node_ids, PArray (map PInt (np_sort (row_labels f')))))
          | _ \<Rightarrow> seq (obj_len h y) (\<lambda>n. Inr (node_ids, arange n)))
       else Inr (node_ids, data_ids)))))))"

subsection \<open>Lines 107 to 119: the graph of the TCM and the extra attributes\<close>

datatype gdata = Given py | Built nxgraph

text \<open>
  Lines 108 to 111. \<^verbatim>\<open>relabel_nodes\<close> copies by default and its result is dropped, so
  of line 110 only the iteration of \<^verbatim>\<open>data_ids\<close> is left.
\<close>

definition tcm_graph :: "heap \<Rightarrow> py \<Rightarrow> matrix \<Rightarrow> py \<Rightarrow> obj \<Rightarrow> error + gdata" where
  "tcm_graph h G_data TCM data_ids y =
     (if G_data = PBool True then
        seq (MultiGraph TCM) (\<lambda>g.
        seq (py_iter data_ids) (\<lambda>ids.
        seq (obj_iter h y) (\<lambda>ys.
        seq (dict_of (zip ids ys)) (\<lambda>groups.
          Inr (Built (g\<lparr>g_nodes := set_node_attributes (g_nodes g) groups (PStr ''group'')\<rparr>))))))
      else Inr (Given G_data))"

fun node_data_loop :: "nxgraph \<Rightarrow> (py \<times> pydict) list \<Rightarrow> nxgraph" where
  "node_data_loop g [] = g"
| "node_data_loop g ((k, values) # rest) =
     node_data_loop (g\<lparr>g_nodes := set_node_attributes (g_nodes g) (dict_update [] values) k\<rparr>) rest"

fun edge_data_loop :: "nxgraph \<Rightarrow> (py \<times> ((py \<times> py) \<times> py) list) list \<Rightarrow> error + nxgraph" where
  "edge_data_loop g [] = Inr g"
| "edge_data_loop g ((k, values) # rest) =
     seq (set_edge_attributes g (dict_update [] values) k) (\<lambda>g'. edge_data_loop g' rest)"

definition annotate_extra ::
  "nxgraph \<Rightarrow> (py \<times> pydict) list option \<Rightarrow> (py \<times> ((py \<times> py) \<times> py) list) list option
   \<Rightarrow> error + nxgraph" where
  "annotate_extra g node_data edge_data =
     (let g1 = (case node_data of None \<Rightarrow> g | Some nd \<Rightarrow> node_data_loop g nd)
      in case edge_data of None \<Rightarrow> Inr g1 | Some ed \<Rightarrow> edge_data_loop g1 ed)"

subsection \<open>The stages, and the method\<close>

record fitted =
  new_G :: nxgraph
  new_G_data :: gdata
  new_node_ids :: py
  new_data_ids :: py
  new_A :: matrix
  new_M :: matrix
  new_TCM :: matrix
  new_mixtures :: "nat list list"

text \<open>
  Lines 84 to 122. The processed graph and the graph of the TCM are new objects that
  nothing else refers to before line 126: they are values here and enter the heap when
  they are stored. The copy of a graph argument (line 86) is made in the heap.
\<close>

definition fit_stages :: "env \<Rightarrow> call \<Rightarrow> heap \<Rightarrow> (error + fitted) \<times> heap" where
  "fit_stages E c h =
     (case canonical_graph (the_G c) h of
        (Inl e, h') \<Rightarrow> (Inl e, h')
      | (Inr G, h') \<Rightarrow>
          (seq (index_sets E h' G (the_y c)) (\<lambda>(node_ids, data_ids).
           seq (process_graph E G (the_y c) (arg_kwargs c)) (\<lambda>G'.
           seq (extract_matrices E G' (Some data_ids)) (\<lambda>(A, M, TCM).
           seq (tcm_graph h' (the_G_data c) TCM data_ids (the_y c)) (\<lambda>G_data.
           seq (annotate_extra G' (the_node_data c) (the_edge_data c)) (\<lambda>G''.
             Inr \<lparr>new_G = G'', new_G_data = G_data, new_node_ids = node_ids,
                  new_data_ids = data_ids, new_A = A, new_M = M, new_TCM = TCM,
                  new_mixtures = mixtures TCM\<rparr>))))), h'))"

definition py_of_matrix :: "matrix \<Rightarrow> py" where
  "py_of_matrix m = PArray (map (\<lambda>row. PArray (map PInt row)) m)"

definition py_of_mixtures :: "nat list list \<Rightarrow> py" where
  "py_of_mixtures ms = PList (map (\<lambda>m. PArray (map (\<lambda>j. PInt (int j)) m)) ms)"

text \<open>Lines 125 to 139.\<close>

definition store_fit :: "fitted \<Rightarrow> world \<Rightarrow> world" where
  "store_fit r w =
     (case w of (h, self) \<Rightarrow>
        (let (h1, g) = alloc h (new_G r);
             (h2, gd) = (case new_G_data r of
                           Given v \<Rightarrow> (h1, Val v)
                         | Built g' \<Rightarrow> (let (h', a) = alloc h1 g' in (h', Graph a)));
             self = setattr ''G_'' (Graph g) self;
             self = setattr ''G_data_'' gd self;
             self = setattr ''node_ids_'' (Val (new_node_ids r)) self;
             self = setattr ''data_ids_'' (Val (new_data_ids r)) self;
             self = setattr ''adj_'' (Val (py_of_matrix (new_A r))) self;
             self = setattr ''map_'' (Val (py_of_matrix (new_M r))) self;
             self = setattr ''tcm_'' (Val (py_of_matrix (new_TCM r))) self;
             self = setattr ''mixtures_'' (Val (py_of_mixtures (new_mixtures r))) self;
             self = setattr ''G'' (Graph g) self;
             self = setattr ''A'' (Val (py_of_matrix (new_A r))) self;
             self = setattr ''M'' (Val (py_of_matrix (new_M r))) self;
             self = setattr ''TCM'' (Val (py_of_matrix (new_TCM r))) self
         in (h2, self)))"

definition save_inputs :: "call \<Rightarrow> dyneugraph \<Rightarrow> dyneugraph" where
  "save_inputs c self =
     setattr ''y_'' (the_y c) (setattr ''X_'' (the_X c)
       (setattr ''G_input_'' (obj_of_garg (the_G c)) self))"

definition fit :: "env \<Rightarrow> call \<Rightarrow> world \<Rightarrow> (error + unit) \<times> world" where
  "fit E c w =
     (case w of (h, self) \<Rightarrow>
        (case fit_stages E c h of
           (Inl e, h') \<Rightarrow> (Inl e, (h', save_inputs c self))
         | (Inr r, h') \<Rightarrow> (Inr (), store_fit r (h', save_inputs c self))))"

section \<open>The other methods\<close>

subsection \<open>\<^verbatim>\<open>__init__\<close>\<close>

text \<open>
  \<^verbatim>\<open>dict(params)\<close>: the arguments that were passed, as values; they are listed in the
  order of the signature, the further keyword arguments last.
\<close>

definition obj_of_node_data :: "(py \<times> pydict) list option \<Rightarrow> obj" where
  "obj_of_node_data nd =
     (case nd of None \<Rightarrow> Val PNone
      | Some d \<Rightarrow> Val (PDict (map (\<lambda>(k, values). (k, PDict values)) d)))"

definition obj_of_edge_data :: "(py \<times> ((py \<times> py) \<times> py) list) list option \<Rightarrow> obj" where
  "obj_of_edge_data ed =
     (case ed of None \<Rightarrow> Val PNone
      | Some d \<Rightarrow> Val (PDict (map (\<lambda>(k, values).
                     (k, PDict (map (\<lambda>((u, v), x). (PTuple [u, v], x)) values))) d)))"

definition passed :: "string \<Rightarrow> 'a option \<Rightarrow> ('a \<Rightarrow> obj) \<Rightarrow> (string \<times> obj) list" where
  "passed name arg f = (case arg of None \<Rightarrow> [] | Some v \<Rightarrow> [(name, f v)])"

definition params :: "call \<Rightarrow> (string \<times> obj) list" where
  "params c =
     passed ''G'' (arg_G c) obj_of_garg @ passed ''X'' (arg_X c) id @ passed ''y'' (arg_y c) id @
     passed ''node_data'' (arg_node_data c) obj_of_node_data @
     passed ''edge_data'' (arg_edge_data c) obj_of_edge_data @
     passed ''G_data'' (arg_G_data c) Val @ arg_kwargs c"

text \<open>
  Lines 48 and 49 on the new object, which has no attribute yet. When \<^verbatim>\<open>fit\<close> raises,
  the constructor raises and the caller gets no instance.
\<close>

definition new_instance :: "call \<Rightarrow> dyneugraph" where
  "new_instance c = \<lparr>cache_dict = dict_update [] (params c), attrs = Map.empty\<rparr>"

definition init :: "env \<Rightarrow> call \<Rightarrow> heap \<Rightarrow> (error + unit) \<times> world" where
  "init E c h = fit E c (h, new_instance c)"

subsection \<open>\<^verbatim>\<open>inverse_transform\<close>, \<^verbatim>\<open>fit_transform\<close>, \<^verbatim>\<open>sample\<close>\<close>

definition getattr :: "dyneugraph \<Rightarrow> string \<Rightarrow> error + obj" where
  "getattr self name = (case attrs self name of None \<Rightarrow> Inl AttributeError | Some v \<Rightarrow> Inr v)"

definition inverse_transform :: "obj \<Rightarrow> obj \<Rightarrow> world \<Rightarrow> (error + obj) \<times> world" where
  "inverse_transform G y w = (getattr (snd w) ''G_inverse_'', w)"

definition fit_transform :: "env \<Rightarrow> garg \<Rightarrow> obj \<Rightarrow> world \<Rightarrow> (error + obj) \<times> world" where
  "fit_transform E G y w =
     (case fit E \<lparr>arg_G = Some G, arg_X = None, arg_y = Some y, arg_node_data = None,
                 arg_edge_data = None, arg_G_data = None, arg_kwargs = []\<rparr> w of
        (Inl e, w') \<Rightarrow> (Inl e, w')
      | (Inr _, w') \<Rightarrow> (getattr (snd w') ''tcm_'', w'))"

definition sample :: "obj \<Rightarrow> obj \<Rightarrow> world \<Rightarrow> (error + obj) \<times> world" where
  "sample X y w =
     (case w of (h, self) \<Rightarrow> (Inr (Val PNone), (h, setattr ''mixtures_img_'' (Val PNone) self)))"

subsection \<open>\<^verbatim>\<open>transform\<close>\<close>

text \<open>
  The attribute \<^verbatim>\<open>G_\<close> as a graph object. Only \<^verbatim>\<open>fit\<close> and \<^verbatim>\<open>annotate\<close> assign it, and
  they assign a graph, so the last case is never met on an instance that the class built.
\<close>

definition graph_attr :: "dyneugraph \<Rightarrow> string \<Rightarrow> error + addr" where
  "graph_attr self name =
     (case attrs self name of
        None \<Rightarrow> Inl AttributeError
      | Some (Graph a) \<Rightarrow> Inr a
      | Some _ \<Rightarrow> Inl TypeError)"

text \<open>
  Lines 183 to 199, from the state of the local variable \<^verbatim>\<open>G_data\<close>: \<open>None\<close> when it is
  not bound. Line 186 reads \<^verbatim>\<open>data_ids\<close>, which is no name of the method or the module.
\<close>

definition transform_body :: "py option \<Rightarrow> matrix \<Rightarrow> matrix \<Rightarrow> matrix \<Rightarrow> world \<Rightarrow> (error + obj) \<times> world" where
  "transform_body G_data A M TCM w =
     (case G_data of
        None \<Rightarrow> (Inl UnboundLocalError, w)
      | Some gd \<Rightarrow>
          (if gd = PBool True then
             (case MultiGraph TCM of Inl e \<Rightarrow> (Inl e, w) | Inr g \<Rightarrow> (Inl NameError, w))
           else
             (case w of (h, self) \<Rightarrow>
                (let self = setattr ''G_data_'' (Val gd) self;
                     self = setattr ''adj_'' (Val (py_of_matrix A)) self;
                     self = setattr ''map_'' (Val (py_of_matrix M)) self;
                     self = setattr ''tcm_'' (Val (py_of_matrix TCM)) self;
                     self = setattr ''mixtures_'' (Val (py_of_mixtures (mixtures TCM))) self
                 in (Inr (Val (py_of_matrix TCM)), (h, self))))))"

text \<open>
  Line 181, and then the rest. \<^verbatim>\<open>G_data\<close> is assigned in the method (line 185), so it is
  a local variable of it, and nothing binds it before line 184 reads it.
\<close>

definition transform :: "env \<Rightarrow> obj \<Rightarrow> obj \<Rightarrow> world \<Rightarrow> (error + obj) \<times> world" where
  "transform E X y w =
     (case graph_attr (snd w) ''G_'' of
        Inl e \<Rightarrow> (Inl e, w)
      | Inr a \<Rightarrow>
          (case extract_matrices E (graphs (fst w) a) None of
             Inl e \<Rightarrow> (Inl e, w)
           | Inr (A, M, TCM) \<Rightarrow> transform_body None A M TCM w))"

subsection \<open>The annotation methods\<close>

definition update_graph :: "addr \<Rightarrow> (nxgraph \<Rightarrow> nxgraph) \<Rightarrow> heap \<Rightarrow> heap" where
  "update_graph a f h = h\<lparr>graphs := (graphs h)(a := f (graphs h a))\<rparr>"

definition annotate :: "env \<Rightarrow> (string \<times> obj) list \<Rightarrow> world \<Rightarrow> (error + unit) \<times> world" where
  "annotate E kwargs w =
     (case w of (h, self) \<Rightarrow>
        (case graph_attr self ''G_'' of
           Inl e \<Rightarrow> (Inl e, w)
         | Inr a \<Rightarrow>
             (case visuals_annotate E a kwargs h of
                (Inl e, h') \<Rightarrow> (Inl e, (h', self))
              | (Inr (a', annotations), h') \<Rightarrow>
                  (Inr (), (h', setattr ''annotations_'' annotations
                                  (setattr ''G_'' (Graph a') self))))))"

text \<open>Lines 234 to 239: the values that are zipped with the nodes.\<close>

definition node_values :: "py \<Rightarrow> py list \<Rightarrow> py list" where
  "node_values values nodes =
     (case values of
        PArray xs \<Rightarrow> xs
      | PDict d \<Rightarrow> map fst d
      | PList xs \<Rightarrow> xs
      | _ \<Rightarrow> map (\<lambda>_. values) nodes)"

text \<open>
  Lines 233 to 241. The nodes of a graph are hashable, so the comprehension of line 240
  does not raise.
\<close>

fun annotate_nodes :: "(string \<times> py) list \<Rightarrow> world \<Rightarrow> (error + unit) \<times> world" where
  "annotate_nodes [] w = (Inr (), w)"
| "annotate_nodes ((name, values) # kwargs) w =
     (case graph_attr (snd w) ''G_'' of
        Inl e \<Rightarrow> (Inl e, w)
      | Inr a \<Rightarrow>
          (let nodes = map fst (g_nodes (graphs (fst w) a));
               values = dict_update [] (zip nodes (node_values values nodes))
           in annotate_nodes kwargs
                (update_graph a (\<lambda>g. g\<lparr>g_nodes := set_node_attributes (g_nodes g) values (PStr name)\<rparr>)
                   (fst w), snd w)))"

text \<open>Lines 267 to 272.\<close>

definition member_values :: "py \<Rightarrow> py list" where
  "member_values values =
     (case values of
        PArray xs \<Rightarrow> xs
      | PDict d \<Rightarrow> map fst d
      | PList xs \<Rightarrow> xs
      | _ \<Rightarrow> [values])"

text \<open>
  Lines 266 to 275. When \<^verbatim>\<open>G_data_\<close> is not a graph (it is \<^verbatim>\<open>False\<close> unless \<^verbatim>\<open>fit\<close> was
  called with \<^verbatim>\<open>G_data=True\<close>), \<^verbatim>\<open>zip\<close> fails on a value that cannot be iterated, and
  \<^verbatim>\<open>set_node_attributes\<close> fails on \<^verbatim>\<open>G.nodes\<close> as soon as there is a value to set.
\<close>

fun annotate_members :: "(string \<times> py) list \<Rightarrow> world \<Rightarrow> (error + unit) \<times> world" where
  "annotate_members [] w = (Inr (), w)"
| "annotate_members ((name, values) # kwargs) w =
     (case getattr (snd w) ''G_data_'' of
        Inl e \<Rightarrow> (Inl e, w)
      | Inr (Graph a) \<Rightarrow>
          (let nodes = map fst (g_nodes (graphs (fst w) a));
               values = dict_update [] (zip nodes (member_values values))
           in annotate_members kwargs
                (update_graph a (\<lambda>g. g\<lparr>g_nodes := set_node_attributes (g_nodes g) values (PStr name)\<rparr>)
                   (fst w), snd w))
      | Inr G_data \<Rightarrow>
          (case obj_iter (fst w) G_data of
             Inl e \<Rightarrow> (Inl e, w)
           | Inr nodes \<Rightarrow>
               (case dict_of (zip nodes (member_values values)) of
                  Inl e \<Rightarrow> (Inl e, w)
                | Inr values \<Rightarrow>
                    (if values = [] then annotate_members kwargs w
                     else (Inl AttributeError, w)))))"

definition annotate_graph :: "(string \<times> py) list \<Rightarrow> world \<Rightarrow> (error + unit) \<times> world" where
  "annotate_graph kwargs w =
     (case graph_attr (snd w) ''G_'' of
        Inl e \<Rightarrow> (Inl e, w)
      | Inr a \<Rightarrow>
          (Inr (), (update_graph a
                      (\<lambda>g. g\<lparr>g_graph := dict_update (g_graph g) (map (\<lambda>(k, v). (PStr k, v)) kwargs)\<rparr>)
                      (fst w), snd w)))"

subsection \<open>\<^verbatim>\<open>visualize\<close>\<close>

definition wseq ::
  "(error + 'a) \<times> world \<Rightarrow> ('a \<Rightarrow> world \<Rightarrow> (error + 'b) \<times> world) \<Rightarrow> (error + 'b) \<times> world" where
  "wseq m f = (case m of (Inl e, w) \<Rightarrow> (Inl e, w) | (Inr x, w) \<Rightarrow> f x w)"

fun str_key :: "py \<times> py \<Rightarrow> string \<times> py" where
  "str_key (PStr k, v) = (k, v)"
| "str_key (_, v) = ([], v)"

text \<open>Lines 294 to 297.\<close>

definition set_color :: "py \<Rightarrow> world \<Rightarrow> (error + unit) \<times> world" where
  "set_color color_functions w =
     (if color_functions \<noteq> PNone then
        (let color = (case color_functions of
                        PDict d \<Rightarrow> color_functions
                      | _ \<Rightarrow> PDict [(PStr ''default'', color_functions)])
         in case graph_attr (snd w) ''G'' of
              Inl e \<Rightarrow> (Inl e, w)
            | Inr a \<Rightarrow>
                (Inr (), (update_graph a (\<lambda>g. g\<lparr>g_graph := dict_set (g_graph g) (PStr ''color'') color\<rparr>)
                            (fst w), snd w)))
      else (Inr (), w))"

text \<open>Lines 302 and 303: the keys of \<^verbatim>\<open>custom_data\<close> become keyword names.\<close>

definition set_custom :: "py \<Rightarrow> world \<Rightarrow> (error + unit) \<times> world" where
  "set_custom custom_data w =
     (case custom_data of
        PDict d \<Rightarrow>
          (if list_all (\<lambda>p. is_str (fst p)) d then annotate_graph (map str_key d) w
           else (Inl TypeError, w))
      | _ \<Rightarrow> (Inr (), w))"

definition visualize ::
  "env \<Rightarrow> obj \<Rightarrow> obj \<Rightarrow> py \<Rightarrow> py \<Rightarrow> bool \<Rightarrow> (string \<times> obj) list \<Rightarrow> world \<Rightarrow> (error + unit) \<times> world" where
  "visualize E path_html json_graph color_functions custom_data plot_tcm kwargs w =
     wseq (set_color color_functions w) (\<lambda>_ w.
     wseq (set_custom custom_data w) (\<lambda>_ w.
     wseq (graph_attr (snd w) ''G'', w) (\<lambda>a w.
     wseq (Inr (), (fst w, setattr ''node_link_data_'' (Val (PDict (node_link_data (graphs (fst w) a)))) (snd w))) (\<lambda>_ w.
     wseq (if plot_tcm
           then (seq (getattr (snd w) ''tcm_'') (\<lambda>tcm. plot_temporal_matrix E tcm kwargs), w)
           else (Inr (), w)) (\<lambda>_ w.
     wseq (seq (getattr (snd w) ''node_link_data_'') (\<lambda>d. visualize_force E d path_html kwargs), w) (\<lambda>HTTP w.
       (Inr (), (fst w, setattr ''HTTP'' HTTP (snd w)))))))))"

subsection \<open>Sequences of calls\<close>

text \<open>
  The methods of the class as one datatype, and the world after a call, whether the call
  returned or raised.
\<close>

datatype method_call =
    Cache "obj list" "(string \<times> obj) list"
  | Fit call
  | Inverse_transform obj obj
  | Fit_transform garg obj
  | Sample obj obj
  | Transform obj obj
  | Annotate "(string \<times> obj) list"
  | Annotate_nodes "(string \<times> py) list"
  | Annotate_members "(string \<times> py) list"
  | Annotate_graph "(string \<times> py) list"
  | Visualize obj obj py py bool "(string \<times> obj) list"

fun invoke :: "env \<Rightarrow> method_call \<Rightarrow> world \<Rightarrow> world" where
  "invoke E (Cache args kwargs) w = (fst w, snd (cache args kwargs (snd w)))"
| "invoke E (Fit c) w = snd (fit E c w)"
| "invoke E (Inverse_transform G y) w = snd (inverse_transform G y w)"
| "invoke E (Fit_transform G y) w = snd (fit_transform E G y w)"
| "invoke E (Sample X y) w = snd (sample X y w)"
| "invoke E (Transform X y) w = snd (transform E X y w)"
| "invoke E (Annotate kwargs) w = snd (annotate E kwargs w)"
| "invoke E (Annotate_nodes kwargs) w = snd (annotate_nodes kwargs w)"
| "invoke E (Annotate_members kwargs) w = snd (annotate_members kwargs w)"
| "invoke E (Annotate_graph kwargs) w = snd (annotate_graph kwargs w)"
| "invoke E (Visualize path_html json_graph color_functions custom_data plot_tcm kwargs) w =
     snd (visualize E path_html json_graph color_functions custom_data plot_tcm kwargs w)"

fun invoke_all :: "env \<Rightarrow> method_call list \<Rightarrow> world \<Rightarrow> world" where
  "invoke_all E [] w = w"
| "invoke_all E (m # ms) w = invoke_all E ms (invoke E m w)"

section \<open>What the properties are stated with\<close>

text \<open>
  The cache lookup in the words of its description: the stored value of a key
  (\<^verbatim>\<open>None\<close> for a key that is not there), and the stored value of the first key whose
  stored value is not \<^verbatim>\<open>None\<close>.
\<close>

definition stored :: "(string \<times> obj) list \<Rightarrow> obj \<Rightarrow> obj" where
  "stored d k =
     (case k of
        Val (PStr s) \<Rightarrow> (case dict_get d s of None \<Rightarrow> Val PNone | Some v \<Rightarrow> v)
      | _ \<Rightarrow> Val PNone)"

definition first_stored :: "(string \<times> obj) list \<Rightarrow> obj list \<Rightarrow> obj" where
  "first_stored d keys =
     (case List.find (\<lambda>k. stored d k \<noteq> Val PNone) keys of
        None \<Rightarrow> Val PNone
      | Some k \<Rightarrow> stored d k)"

definition has_nodes_and_links :: "pydict \<Rightarrow> bool" where
  "has_nodes_and_links G = (dict_get G (PStr ''nodes'') \<noteq> None \<and> dict_get G (PStr ''links'') \<noteq> None)"

text \<open>
  The second graph is the first one up to the attribute dictionaries of its nodes; and
  up to the attributes of the graph itself.
\<close>

definition only_node_attrs :: "nxgraph \<Rightarrow> nxgraph \<Rightarrow> bool" where
  "only_node_attrs g g' =
     (directed g' = directed g \<and> multigraph g' = multigraph g \<and> g_graph g' = g_graph g \<and>
      map fst (g_nodes g') = map fst (g_nodes g) \<and> g_edges g' = g_edges g)"

definition only_graph_attrs :: "nxgraph \<Rightarrow> nxgraph \<Rightarrow> bool" where
  "only_graph_attrs g g' =
     (directed g' = directed g \<and> multigraph g' = multigraph g \<and>
      g_nodes g' = g_nodes g \<and> g_edges g' = g_edges g)"

text \<open>The value of an attribute of the \<open>i\<close>-th node of a graph.\<close>

definition node_attr :: "nxgraph \<Rightarrow> nat \<Rightarrow> string \<Rightarrow> py option" where
  "node_attr g i name = dict_get (snd (g_nodes g ! i)) (PStr name)"

section \<open>An environment to run the model in\<close>

text \<open>
  The properties hold for every environment. To run the model on examples, the
  collaborators are given definitions here.
\<close>

fun py_le :: "py \<Rightarrow> py \<Rightarrow> bool" where
  "py_le (PInt i) (PInt j) = (i \<le> j)"
| "py_le (PStr s) (PStr t) = (s \<le> t)"
| "py_le (PInt i) (PStr t) = True"
| "py_le _ _ = False"

fun insert_sorted :: "py \<Rightarrow> py list \<Rightarrow> py list" where
  "insert_sorted x [] = [x]"
| "insert_sorted x (y # ys) = (if py_le x y then x # y # ys else y # insert_sorted x ys)"

definition sorted_unique :: "py list \<Rightarrow> py list" where
  "sorted_unique xs = foldr insert_sorted (remdups xs) []"

fun is_int :: "py \<Rightarrow> bool" where
  "is_int (PInt _) = True"
| "is_int _ = False"

text \<open>
  numpy's \<^verbatim>\<open>unique\<close> returns the sorted distinct items of a list of integers or of a
  list of strings. Other lists are not used in the examples; a list of at most one item
  has nothing to sort, and sorting fails on items that cannot be compared.
\<close>

definition unique_example :: "py list \<Rightarrow> error + py" where
  "unique_example xs =
     (if list_all is_int xs \<or> list_all is_str xs then Inr (PArray (sorted_unique xs))
      else if length xs \<le> 1 then Inr (PArray xs)
      else Inl TypeError)"

text \<open>The pairs of a link dictionary, the nodes with their members, and the options.\<close>

fun link_pairs :: "pydict \<Rightarrow> error + (py \<times> py) list" where
  "link_pairs [] = Inr []"
| "link_pairs ((u, targets) # rest) =
     seq (py_iter targets) (\<lambda>vs. seq (link_pairs rest) (\<lambda>ps. Inr (map (\<lambda>v. (u, v)) vs @ ps)))"

fun member_nodes :: "pydict \<Rightarrow> error + (py \<times> pydict) list" where
  "member_nodes [] = Inr []"
| "member_nodes ((n, ms) # rest) =
     seq (py_iter ms) (\<lambda>xs. seq (member_nodes rest) (\<lambda>ns.
       Inr ((n, [(PStr ''members'', PList (remdups xs))]) # ns)))"

fun apply_options :: "(py \<times> pydict) list \<Rightarrow> (string \<times> obj) list \<Rightarrow> (py \<times> pydict) list" where
  "apply_options nodes [] = nodes"
| "apply_options nodes ((name, Val (PDict d)) # options) =
     apply_options (set_node_attributes nodes d (PStr name)) options"
| "apply_options nodes (_ # options) = apply_options nodes options"

text \<open>
  Modelled from the spec: \<^verbatim>\<open>tools.process_graph\<close>, which is not in \<^verbatim>\<open>core.py\<close>. The spec
  (4.2) has it build the processed graph from the canonical one, a node owning the
  de-duplicated list of its member time indices and a link joining two node keys, and
  apply the options as attribute overrides (attribute name to a dictionary from nodes
  to values); the node/link format is that of the spec's scenario (8.6), where a link
  maps a node to the nodes it is joined to.
\<close>

definition process_graph_spec :: "pydict \<Rightarrow> obj \<Rightarrow> (string \<times> obj) list \<Rightarrow> error + nxgraph" where
  "process_graph_spec G meta options =
     seq (getitem G (PStr ''nodes'')) (\<lambda>nodes.
     seq (items nodes) (\<lambda>ns.
     seq (member_nodes ns) (\<lambda>nodes'.
     seq (getitem G (PStr ''links'')) (\<lambda>links.
     seq (items links) (\<lambda>ls.
     seq (link_pairs ls) (\<lambda>es.
       Inr \<lparr>directed = False, multigraph = False, g_graph = [],
            g_nodes = apply_options nodes' options,
            g_edges = map (\<lambda>(u, v). (u, v, PNone, [])) es\<rparr>))))))"

text \<open>The members that the processed graph records for a node.\<close>

definition node_members :: "py \<times> pydict \<Rightarrow> py list" where
  "node_members n =
     (case dict_get (snd n) (PStr ''members'') of Some (PList xs) \<Rightarrow> xs | _ \<Rightarrow> [])"

text \<open>
  Modelled from the spec: \<^verbatim>\<open>tools.extract_matrices\<close>, which is not in \<^verbatim>\<open>core.py\<close>. The spec
  (4.3): the nodes in the order of their keys; \<open>M\<close> marks, for every node, the rows of
  its members; \<open>A\<close> marks both directions of every edge; the TCM is the product of \<open>M\<close>
  and its transpose. A member that is not in the index is left out; without an index,
  the members of the graph are the index.
\<close>

definition extract_matrices_spec :: "nxgraph \<Rightarrow> py option \<Rightarrow> error + (matrix \<times> matrix \<times> matrix)" where
  "extract_matrices_spec G index =
     (let nodes = concat (map (\<lambda>k. filter (\<lambda>n. fst n = k) (g_nodes G))
                           (sorted_unique (map fst (g_nodes G))))
      in seq (case index of
                None \<Rightarrow> Inr (sorted_unique (concat (map node_members nodes)))
              | Some ids \<Rightarrow> py_iter ids) (\<lambda>ts.
         (let M = map (\<lambda>t. map (\<lambda>n. if t \<in> set (node_members n) then 1 else 0) nodes) ts;
              A = map (\<lambda>n. map (\<lambda>m. if list_ex (\<lambda>(u, v, k, d). (u = fst n \<and> v = fst m) \<or>
                                                                    (u = fst m \<and> v = fst n)) (g_edges G)
                                      then 1 else 0) nodes) nodes;
              TCM = map (\<lambda>r. map (\<lambda>r'. sum_list (map (\<lambda>(x, y). x * y) (zip r r'))) M) M
          in Inr (A, M, TCM))))"

text \<open>
  The functions of \<^verbatim>\<open>visuals\<close> are outside the spec's scope; the examples use one that
  returns the graph it is given with no annotations, and renderers that do nothing.
\<close>

definition env_spec :: env where
  "env_spec =
     \<lparr>np_unique = unique_example,
      process_graph = process_graph_spec,
      extract_matrices = extract_matrices_spec,
      visuals_annotate = (\<lambda>a kwargs h. (Inr (a, Val (PDict [])), h)),
      plot_temporal_matrix = (\<lambda>tcm kwargs. Inr ()),
      visualize_force = (\<lambda>d path_html kwargs. Inr (Val PNone))\<rparr>"

text \<open>
  The scenario of the spec (8.6): the nodes \<open>a = {0, 1, 2}\<close> and \<open>b = {2, 3}\<close>, joined
  by an edge.
\<close>

definition no_args :: call where
  "no_args = \<lparr>arg_G = None, arg_X = None, arg_y = None, arg_node_data = None,
              arg_edge_data = None, arg_G_data = None, arg_kwargs = []\<rparr>"

definition two_nodes :: pydict where
  "two_nodes =
     [(PStr ''nodes'', PDict [(PStr ''a'', PList [PInt 0, PInt 1, PInt 2]),
                              (PStr ''b'', PList [PInt 2, PInt 3])]),
      (PStr ''links'', PDict [(PStr ''a'', PList [PStr ''b''])])]"

definition empty_graph :: nxgraph where
  "empty_graph = \<lparr>directed = False, multigraph = False, g_graph = [], g_nodes = [], g_edges = []\<rparr>"

definition empty_heap :: heap where
  "empty_heap = \<lparr>graphs = (\<lambda>a. empty_graph), fresh = 0\<rparr>"

definition two_nodes_call :: call where
  "two_nodes_call = no_args\<lparr>arg_G := Some (Serialized two_nodes)\<rparr>"

definition fitted_world :: world where
  "fitted_world = snd (init env_spec two_nodes_call empty_heap)"

text \<open>A call of \<^verbatim>\<open>fit\<close> with labels that have no length: \<^verbatim>\<open>fit(y=5)\<close>.\<close>

definition bad_labels_call :: call where
  "bad_labels_call = no_args\<lparr>arg_y := Some (Val (PInt 5))\<rparr>"

text \<open>A call of \<^verbatim>\<open>fit\<close> with the graph object at address 0 as the graph.\<close>

definition graph_object_call :: call where
  "graph_object_call = no_args\<lparr>arg_G := Some (GraphObject 0)\<rparr>"

text \<open>A serialized graph that has no links.\<close>

definition only_nodes :: pydict where
  "only_nodes = [(PStr ''nodes'', PDict [(PStr ''a'', PList [PInt 0])])]"

text \<open>A \<^verbatim>\<open>process_graph\<close> that refuses a graph without the two keys.\<close>

definition guarded_process_graph :: "pydict \<Rightarrow> obj \<Rightarrow> (string \<times> obj) list \<Rightarrow> error + nxgraph" where
  "guarded_process_graph G meta options =
     (if has_nodes_and_links G then process_graph_spec G meta options else Inl KeyError)"

text \<open>A table of four rows that are labelled 10, 20, 30 and 40, passed as \<^verbatim>\<open>y\<close>.\<close>

definition labelled_frame :: "py frame" where
  "labelled_frame =
     \<lparr>row_labels = [PInt 10, PInt 20, PInt 30, PInt 40], index_name = None, columns = [''label'']\<rparr>"

definition frame_call :: call where
  "frame_call = two_nodes_call\<lparr>arg_y := Some (Frame labelled_frame)\<rparr>"

text \<open>
  An instance with a graph of the time indices: \<^verbatim>\<open>G_data=True\<close> and a label for each of
  the four time indices.
\<close>

definition grouped_call :: call where
  "grouped_call =
     two_nodes_call\<lparr>arg_y := Some (Val (PList [PStr ''rest'', PStr ''rest'', PStr ''task'', PStr ''task''])),
                    arg_G_data := Some (PBool True)\<rparr>"

definition grouped_world :: world where
  "grouped_world = snd (init env_spec grouped_call empty_heap)"

section \<open>Properties\<close>

subsection \<open>Dictionaries and the cache\<close>

lemma dict_get_set: "dict_get (dict_set d k v) k' = (if k' = k then Some v else dict_get d k')"
  by (induction d) auto

lemma dict_get_append:
  "dict_get (xs @ ys) k = (case dict_get xs k of Some v \<Rightarrow> Some v | None \<Rightarrow> dict_get ys k)"
  by (induction xs) auto

lemma dict_get_update:
  "dict_get (dict_update d e) k = (case dict_get (rev e) k of Some v \<Rightarrow> Some v | None \<Rightarrow> dict_get d k)"
proof (induction e arbitrary: d)
  case Nil
  show ?case by simp
next
  case (Cons p e)
  obtain k' v' where p: "p = (k', v')" by (cases p)
  show ?case
    by (simp add: p Cons.IH dict_get_append dict_get_set split: option.splits)
qed

lemma cache_get_stored: "obj_hashable k \<Longrightarrow> cache_get d k = Inr (stored d k)"
  by (cases "(d, k)" rule: cache_get.cases) (auto simp: stored_def split: option.splits)

lemma cache_scan_first_stored:
  "list_all obj_hashable args \<Longrightarrow> cache_scan d args = Inr (first_stored d args)"
  by (induction args) (auto simp: first_stored_def cache_get_stored)

text \<open>
  Claim C10. Called with keyword arguments only, \<^verbatim>\<open>cache\<close> updates the dictionary with
  them (a key of the call gets the value of the call, any other key keeps its value) and
  returns the whole dictionary. Called with positional keys, it returns the stored value
  of the first key, in the order of the arguments, whose stored value is not \<^verbatim>\<open>None\<close>,
  and \<^verbatim>\<open>None\<close> when there is no such key, and leaves the dictionary as it is. A key is
  hashable.
\<close>

theorem cache_lookup_and_update:
  "cache [] kwargs self =
     (Inr (Whole (dict_update (cache_dict self) kwargs)),
      self\<lparr>cache_dict := dict_update (cache_dict self) kwargs\<rparr>) \<and>
   (\<forall>k. dict_get (dict_update (cache_dict self) kwargs) k =
        (case dict_get (rev kwargs) k of Some v \<Rightarrow> Some v | None \<Rightarrow> dict_get (cache_dict self) k)) \<and>
   (args \<noteq> [] \<and> list_all obj_hashable args \<longrightarrow>
      cache args kwargs self = (Inr (Value (first_stored (cache_dict self) args)), self))"
  by (simp add: cache_def Let_def dict_get_update cache_scan_first_stored)

theorem cache_lookup_and_update_witness:
  "cache [] [(''c'', Val (PInt 3))] \<lparr>cache_dict = [(''a'', Val PNone), (''b'', Val (PInt 2))], attrs = Map.empty\<rparr> =
     (Inr (Whole [(''a'', Val PNone), (''b'', Val (PInt 2)), (''c'', Val (PInt 3))]),
      \<lparr>cache_dict = [(''a'', Val PNone), (''b'', Val (PInt 2)), (''c'', Val (PInt 3))], attrs = Map.empty\<rparr>) \<and>
   [Val (PStr ''z''), Val (PStr ''a''), Val (PStr ''b'')] \<noteq> [] \<and>
   list_all obj_hashable [Val (PStr ''z''), Val (PStr ''a''), Val (PStr ''b'')] \<and>
   cache [Val (PStr ''z''), Val (PStr ''a''), Val (PStr ''b'')] [(''c'', Val (PInt 3))]
       \<lparr>cache_dict = [(''a'', Val PNone), (''b'', Val (PInt 2))], attrs = Map.empty\<rparr> =
     (Inr (Value (Val (PInt 2))), \<lparr>cache_dict = [(''a'', Val PNone), (''b'', Val (PInt 2))], attrs = Map.empty\<rparr>)"
  using cache_lookup_and_update [of "[(''c'', Val (PInt 3))]"
      "\<lparr>cache_dict = [(''a'', Val PNone), (''b'', Val (PInt 2))], attrs = Map.empty\<rparr>"
      "[Val (PStr ''z''), Val (PStr ''a''), Val (PStr ''b'')]"]
  by (simp add: first_stored_def stored_def)

subsection \<open>The example instance\<close>

lemma fitted_G: "graph_attr (snd fitted_world) ''G_'' = Inr 0"
  by code_simp

lemma fitted_extract:
  "extract_matrices env_spec (graphs (fst fitted_world) 0) None =
     Inr ([[0, 1], [1, 0]], [[1, 0], [1, 0], [1, 1], [0, 1]],
          [[1, 1, 1, 0], [1, 1, 1, 0], [1, 1, 2, 1], [0, 0, 1, 1]])"
  by code_simp

subsection \<open>\<^verbatim>\<open>transform\<close>\<close>

lemma transform_body_unbound: "transform_body None A M TCM w = (Inl UnboundLocalError, w)"
  by (simp add: transform_body_def)

text \<open>
  Claim C1 says that \<^verbatim>\<open>transform\<close> recomputes the matrices from the stored graph, stores
  them and returns the TCM. The method does not: every call raises and leaves the
  instance as it was. When the stored graph is there and the extraction succeeds, the
  error is the \<^verbatim>\<open>UnboundLocalError\<close> of line 184.
\<close>

theorem transform_always_raises:
  "snd (transform E X y w) = w \<and> (\<exists>e. fst (transform E X y w) = Inl e) \<and>
   (graph_attr (snd w) ''G_'' = Inr a \<and> extract_matrices E (graphs (fst w) a) None = Inr m \<longrightarrow>
      fst (transform E X y w) = Inl UnboundLocalError)"
  by (auto simp: transform_def transform_body_unbound split: sum.splits prod.splits)

theorem transform_always_raises_witness:
  "graph_attr (snd fitted_world) ''G_'' = Inr 0 \<and>
   extract_matrices env_spec (graphs (fst fitted_world) 0) None =
     Inr ([[0, 1], [1, 0]], [[1, 0], [1, 0], [1, 1], [0, 1]],
          [[1, 1, 1, 0], [1, 1, 1, 0], [1, 1, 2, 1], [0, 0, 1, 1]]) \<and>
   snd (transform env_spec (Val PNone) (Val PNone) fitted_world) = fitted_world \<and>
   fst (transform env_spec (Val PNone) (Val PNone) fitted_world) = Inl UnboundLocalError"
  using transform_always_raises [of env_spec "Val PNone" "Val PNone" fitted_world 0
      "([[0, 1], [1, 0]], [[1, 0], [1, 0], [1, 1], [0, 1]],
        [[1, 1, 1, 0], [1, 1, 1, 0], [1, 1, 2, 1], [0, 0, 1, 1]])"]
    fitted_G fitted_extract
  by simp

subsection \<open>What \<^verbatim>\<open>fit\<close> changes\<close>

lemma attrs_setattr: "attrs (setattr name v self) = (attrs self)(name \<mapsto> v)"
  by (simp add: setattr_def)

lemma cache_dict_setattr: "cache_dict (setattr name v self) = cache_dict self"
  by (simp add: setattr_def)

lemma save_inputs_attrs:
  "attrs (save_inputs c self) =
     (attrs self)(''G_input_'' \<mapsto> obj_of_garg (the_G c), ''X_'' \<mapsto> the_X c, ''y_'' \<mapsto> the_y c)"
  by (simp add: save_inputs_def attrs_setattr)

lemma save_inputs_cache: "cache_dict (save_inputs c self) = cache_dict self"
  by (simp add: save_inputs_def cache_dict_setattr)

lemma canonical_graph_heap:
  "snd (canonical_graph G h) = (case G of GraphObject a \<Rightarrow> fst (alloc h (graphs h a)) | _ \<Rightarrow> h)"
  by (simp add: canonical_graph_def alloc_def split: garg.splits)

lemma fit_stages_heap: "snd (fit_stages E c h) = snd (canonical_graph (the_G c) h)"
  by (simp add: fit_stages_def split: prod.splits sum.splits)

lemma canonical_graph_old_graphs: "b < fresh h \<Longrightarrow> graphs (snd (canonical_graph G h)) b = graphs h b"
  by (simp add: canonical_graph_heap alloc_def split: garg.splits)

lemma canonical_graph_fresh: "fresh h \<le> fresh (snd (canonical_graph G h))"
  by (simp add: canonical_graph_heap alloc_def split: garg.splits)

lemma store_fit_old_graphs: "b < fresh h \<Longrightarrow> graphs (fst (store_fit r (h, self))) b = graphs h b"
  by (simp add: store_fit_def alloc_def Let_def split: gdata.splits)

lemma store_fit_cache: "cache_dict (snd (store_fit r (h, self))) = cache_dict self"
  by (simp add: store_fit_def alloc_def Let_def cache_dict_setattr split: gdata.splits)

lemma store_fit_attrs:
  "attrs (snd (store_fit r (h, self))) =
     (attrs self)
       (''G_'' \<mapsto> Graph (fresh h),
        ''G_data_'' \<mapsto> (case new_G_data r of Given v \<Rightarrow> Val v | Built g \<Rightarrow> Graph (Suc (fresh h))),
        ''node_ids_'' \<mapsto> Val (new_node_ids r),
        ''data_ids_'' \<mapsto> Val (new_data_ids r),
        ''adj_'' \<mapsto> Val (py_of_matrix (new_A r)),
        ''map_'' \<mapsto> Val (py_of_matrix (new_M r)),
        ''tcm_'' \<mapsto> Val (py_of_matrix (new_TCM r)),
        ''mixtures_'' \<mapsto> Val (py_of_mixtures (new_mixtures r)),
        ''G'' \<mapsto> Graph (fresh h),
        ''A'' \<mapsto> Val (py_of_matrix (new_A r)),
        ''M'' \<mapsto> Val (py_of_matrix (new_M r)),
        ''TCM'' \<mapsto> Val (py_of_matrix (new_TCM r)))"
  by (simp add: store_fit_def alloc_def Let_def attrs_setattr split: gdata.splits)

lemma fit_cases:
  "fit E c (h, self) =
     (case fst (fit_stages E c h) of
        Inl e \<Rightarrow> (Inl e, (snd (canonical_graph (the_G c) h), save_inputs c self))
      | Inr r \<Rightarrow> (Inr (), store_fit r (snd (canonical_graph (the_G c) h), save_inputs c self)))"
proof (cases "fit_stages E c h")
  case (Pair r h2)
  then have "h2 = snd (canonical_graph (the_G c) h)"
    using fit_stages_heap [of E c h] by simp
  then show ?thesis using Pair by (simp add: fit_def split: sum.splits)
qed

lemma fit_old_graphs:
  assumes "b < fresh h"
  shows "graphs (fst (snd (fit E c (h, self)))) b = graphs h b"
proof (cases "fst (fit_stages E c h)")
  case (Inl e)
  then show ?thesis using assms by (simp add: fit_cases canonical_graph_old_graphs)
next
  case (Inr r)
  have "b < fresh (snd (canonical_graph (the_G c) h))"
    using assms canonical_graph_fresh [of h "the_G c"] by simp
  then show ?thesis
    using Inr assms by (simp add: fit_cases store_fit_old_graphs canonical_graph_old_graphs)
qed

lemma fit_cache: "cache_dict (snd (snd (fit E c (h, self)))) = cache_dict self"
  by (cases "fst (fit_stages E c h)") (simp_all add: fit_cases store_fit_cache save_inputs_cache)

subsection \<open>A call of \<^verbatim>\<open>fit\<close> that raises\<close>

lemma fit_raised:
  assumes "fit E c (h, self) = (Inl e, (h', self'))"
  shows "self' = save_inputs c self" and "h' = snd (canonical_graph (the_G c) h)"
    and "fst (fit_stages E c h) = Inl e"
  using assms by (auto simp: fit_cases split: sum.splits)

lemma fit_returned:
  assumes "fit E c (h, self) = (Inr u, (h', self'))"
  shows "\<exists>r. fst (fit_stages E c h) = Inr r \<and>
             (h', self') = store_fit r (snd (canonical_graph (the_G c) h), save_inputs c self)"
  using assms by (auto simp: fit_cases split: sum.splits)

text \<open>
  Claim C2, as amended. When a stage of \<^verbatim>\<open>fit\<close> raises, the three inputs \<^verbatim>\<open>G_input_\<close>,
  \<^verbatim>\<open>X_\<close> and \<^verbatim>\<open>y_\<close> hold the arguments of the failed call (lines 80 to 82 come first),
  every other attribute, the derived \<^verbatim>\<open>G_\<close>, \<^verbatim>\<open>adj_\<close>, \<^verbatim>\<open>map_\<close>, \<^verbatim>\<open>tcm_\<close> and
  \<^verbatim>\<open>mixtures_\<close> among them, is as it was, and so are the cache and every graph object
  that existed. When all stages succeed, the inputs and the derived attributes are
  replaced together, from the results of this one call.
\<close>

theorem fit_failure_keeps_derived_state:
  "(fit E c (h, self) = (Inl e, (h', self')) \<longrightarrow>
      attrs self' =
        (attrs self)(''G_input_'' \<mapsto> obj_of_garg (the_G c), ''X_'' \<mapsto> the_X c, ''y_'' \<mapsto> the_y c) \<and>
      list_all (\<lambda>name. attrs self' name = attrs self name)
        [''G_'', ''G_data_'', ''node_ids_'', ''data_ids_'', ''adj_'', ''map_'', ''tcm_'',
         ''mixtures_'', ''G'', ''A'', ''M'', ''TCM''] \<and>
      cache_dict self' = cache_dict self \<and>
      (\<forall>b<fresh h. graphs h' b = graphs h b)) \<and>
   (fit E c (h, self) = (Inr u, (h', self')) \<longrightarrow>
      (\<exists>r. fst (fit_stages E c h) = Inr r \<and>
           attrs self' ''G_input_'' = Some (obj_of_garg (the_G c)) \<and>
           attrs self' ''X_'' = Some (the_X c) \<and>
           attrs self' ''y_'' = Some (the_y c) \<and>
           attrs self' ''G_'' = Some (Graph (fresh (snd (canonical_graph (the_G c) h)))) \<and>
           graphs h' (fresh (snd (canonical_graph (the_G c) h))) = new_G r \<and>
           attrs self' ''adj_'' = Some (Val (py_of_matrix (new_A r))) \<and>
           attrs self' ''map_'' = Some (Val (py_of_matrix (new_M r))) \<and>
           attrs self' ''tcm_'' = Some (Val (py_of_matrix (new_TCM r))) \<and>
           attrs self' ''mixtures_'' = Some (Val (py_of_mixtures (mixtures (new_TCM r))))))"
proof (intro conjI impI)
  assume a: "fit E c (h, self) = (Inl e, (h', self'))"
  show "attrs self' = (attrs self)(''G_input_'' \<mapsto> obj_of_garg (the_G c), ''X_'' \<mapsto> the_X c, ''y_'' \<mapsto> the_y c)"
    using fit_raised(1) [OF a] by (simp add: save_inputs_attrs)
  then show "list_all (\<lambda>name. attrs self' name = attrs self name)
        [''G_'', ''G_data_'', ''node_ids_'', ''data_ids_'', ''adj_'', ''map_'', ''tcm_'',
         ''mixtures_'', ''G'', ''A'', ''M'', ''TCM'']"
    by simp
  show "cache_dict self' = cache_dict self"
    using fit_raised(1) [OF a] by (simp add: save_inputs_cache)
  show "\<forall>b<fresh h. graphs h' b = graphs h b"
    using fit_old_graphs [of _ h E c self] a by simp
next
  assume a: "fit E c (h, self) = (Inr u, (h', self'))"
  from fit_returned [OF a] obtain r where
    r: "fst (fit_stages E c h) = Inr r"
    and w: "(h', self') = store_fit r (snd (canonical_graph (the_G c) h), save_inputs c self)"
    by blast
  have m: "new_mixtures r = mixtures (new_TCM r)"
    using r by (cases "fit_stages E c h") (auto simp: fit_stages_def seq_def split: prod.splits sum.splits)
  have s: "self' = snd (store_fit r (snd (canonical_graph (the_G c) h), save_inputs c self))"
    and hh: "h' = fst (store_fit r (snd (canonical_graph (the_G c) h), save_inputs c self))"
    using w by (metis snd_conv, metis fst_conv)
  have g: "graphs h' (fresh (snd (canonical_graph (the_G c) h))) = new_G r"
    unfolding hh by (simp add: store_fit_def alloc_def Let_def split: gdata.splits)
  show "\<exists>r. fst (fit_stages E c h) = Inr r \<and>
           attrs self' ''G_input_'' = Some (obj_of_garg (the_G c)) \<and>
           attrs self' ''X_'' = Some (the_X c) \<and>
           attrs self' ''y_'' = Some (the_y c) \<and>
           attrs self' ''G_'' = Some (Graph (fresh (snd (canonical_graph (the_G c) h)))) \<and>
           graphs h' (fresh (snd (canonical_graph (the_G c) h))) = new_G r \<and>
           attrs self' ''adj_'' = Some (Val (py_of_matrix (new_A r))) \<and>
           attrs self' ''map_'' = Some (Val (py_of_matrix (new_M r))) \<and>
           attrs self' ''tcm_'' = Some (Val (py_of_matrix (new_TCM r))) \<and>
           attrs self' ''mixtures_'' = Some (Val (py_of_mixtures (mixtures (new_TCM r))))"
    using r g by (intro exI [of _ r]) (simp add: s store_fit_attrs save_inputs_attrs m)
qed

text \<open>
  Claim C2 as it is stated fails: \<^verbatim>\<open>fit(y=5)\<close> on the fitted example raises at line 101
  (\<^verbatim>\<open>len(5)\<close>), and \<^verbatim>\<open>y_\<close> is \<^verbatim>\<open>5\<close> afterwards.
\<close>

lemma y5_raises: "fst (fit env_spec bad_labels_call fitted_world) = Inl TypeError"
  by code_simp

lemma y5_y: "attrs (snd (snd (fit env_spec bad_labels_call fitted_world))) ''y_'' = Some (Val (PInt 5))"
  by code_simp

lemma fitted_y: "attrs (snd fitted_world) ''y_'' = Some (Val PNone)"
  by code_simp

theorem fit_failure_overwrites_inputs:
  "fst (fit env_spec bad_labels_call fitted_world) = Inl TypeError \<and>
   attrs (snd (snd (fit env_spec bad_labels_call fitted_world))) ''y_''
     \<noteq> attrs (snd fitted_world) ''y_''"
  by (simp add: y5_raises y5_y fitted_y)

lemma init_two_nodes: "fst (init env_spec two_nodes_call empty_heap) = Inr ()"
  by code_simp

theorem fit_failure_keeps_derived_state_witness:
  "fit env_spec bad_labels_call (fst fitted_world, snd fitted_world) =
     (Inl TypeError, (fst (snd (fit env_spec bad_labels_call fitted_world)),
                      snd (snd (fit env_spec bad_labels_call fitted_world)))) \<and>
   list_all (\<lambda>name. attrs (snd (snd (fit env_spec bad_labels_call fitted_world))) name =
                     attrs (snd fitted_world) name)
     [''G_'', ''G_data_'', ''node_ids_'', ''data_ids_'', ''adj_'', ''map_'', ''tcm_'',
      ''mixtures_'', ''G'', ''A'', ''M'', ''TCM''] \<and>
   fit env_spec two_nodes_call (empty_heap, new_instance two_nodes_call) =
     (Inr (), (fst fitted_world, snd fitted_world)) \<and>
   attrs (snd fitted_world) ''G_input_'' = Some (obj_of_garg (the_G two_nodes_call))"
proof -
  let ?F = "fit env_spec bad_labels_call fitted_world"
  have a: "fit env_spec bad_labels_call (fst fitted_world, snd fitted_world) =
             (Inl TypeError, (fst (snd ?F), snd (snd ?F)))"
    using y5_raises by (simp add: prod_eq_iff)
  have b: "fit env_spec two_nodes_call (empty_heap, new_instance two_nodes_call) =
             (Inr (), (fst fitted_world, snd fitted_world))"
    using init_two_nodes by (simp add: prod_eq_iff fitted_world_def init_def)
  have 1: "list_all (\<lambda>name. attrs (snd (snd ?F)) name = attrs (snd fitted_world) name)
     [''G_'', ''G_data_'', ''node_ids_'', ''data_ids_'', ''adj_'', ''map_'', ''tcm_'',
      ''mixtures_'', ''G'', ''A'', ''M'', ''TCM'']"
    using fit_failure_keeps_derived_state [of env_spec bad_labels_call "fst fitted_world"
        "snd fitted_world" TypeError "fst (snd ?F)" "snd (snd ?F)" "()"] a
    by blast
  have 2: "attrs (snd fitted_world) ''G_input_'' = Some (obj_of_garg (the_G two_nodes_call))"
    using fit_failure_keeps_derived_state [of env_spec two_nodes_call empty_heap
        "new_instance two_nodes_call" TypeError "fst fitted_world" "snd fitted_world" "()"] b
    by blast
  show ?thesis using a b 1 2 by blast
qed

subsection \<open>The canonical graph and the graph argument\<close>

lemma merge_defaults_keys: "merge_defaults G = Inr Gc \<Longrightarrow> has_nodes_and_links Gc"
  by (auto simp: merge_defaults_def has_nodes_and_links_def dict_get_update skeleton_def
      split: if_splits option.splits)

lemma node_link_data_keys: "list_all (\<lambda>p. is_str (fst p)) (node_link_data g)"
  by (simp add: node_link_data_def)

lemma canonical_graph_GraphObject:
  "canonical_graph (GraphObject a) h =
     (Inr (dict_update skeleton (node_link_data (graphs h a))), fst (alloc h (graphs h a)))"
  by (simp add: canonical_graph_def alloc_def merge_defaults_def node_link_data_keys)

lemma canonical_graph_keys:
  "canonical_graph G h = (Inr Gc, h') \<Longrightarrow> has_nodes_and_links Gc"
  by (cases G) (auto simp: canonical_graph_def alloc_def Let_def dest: merge_defaults_keys)

lemma index_sets_process_graph: "index_sets (E\<lparr>process_graph := pg\<rparr>) h G y = index_sets E h G y"
  by (simp add: index_sets_def)

lemma fit_stages_process_graph:
  assumes "\<And>G y k. has_nodes_and_links G \<Longrightarrow> pg G y k = process_graph E G y k"
  shows "fit_stages (E\<lparr>process_graph := pg\<rparr>) c h = fit_stages E c h"
proof (cases "canonical_graph (the_G c) h")
  case (Pair r h')
  show ?thesis
  proof (cases r)
    case (Inl e)
    then show ?thesis using Pair by (simp add: fit_stages_def)
  next
    case (Inr G)
    then have "has_nodes_and_links G" using Pair canonical_graph_keys by blast
    then have "pg G (the_y c) (arg_kwargs c) = process_graph E G (the_y c) (arg_kwargs c)"
      using assms by blast
    then show ?thesis using Pair Inr
      by (simp add: fit_stages_def index_sets_process_graph)
  qed
qed

text \<open>
  Claim C5. Whatever is passed to \<^verbatim>\<open>fit\<close> as the graph, the canonical graph of line 92,
  when the line does not raise, has the keys \<^verbatim>\<open>nodes\<close> and \<^verbatim>\<open>links\<close>, so that looking
  them up does not fail. With no graph both containers are empty. A serialized
  dictionary is merged over the skeleton: a key it has takes its value, a key it lacks
  keeps the default. A graph object is converted to a dictionary that has both keys.
  The processing stage is only ever handed such a graph: \<^verbatim>\<open>fit\<close> cannot tell two
  \<^verbatim>\<open>process_graph\<close> functions apart that agree on the graphs with both keys.
\<close>

theorem canonical_graph_has_nodes_and_links:
  "(canonical_graph G h = (Inr Gc, h') \<longrightarrow>
      has_nodes_and_links Gc \<and>
      (\<exists>nodes links. getitem Gc (PStr ''nodes'') = Inr nodes \<and> getitem Gc (PStr ''links'') = Inr links)) \<and>
   canonical_graph NoGraph h = (Inr [(PStr ''nodes'', PDict []), (PStr ''links'', PDict [])], h) \<and>
   canonical_graph (Serialized d) h =
     (if list_all (\<lambda>p. is_str (fst p)) d then Inr (dict_update skeleton d) else Inl TypeError, h) \<and>
   (\<forall>k. dict_get (dict_update skeleton d) k =
        (case dict_get (rev d) k of Some v \<Rightarrow> Some v | None \<Rightarrow> dict_get skeleton k)) \<and>
   fst (canonical_graph (GraphObject a) h) = Inr (dict_update skeleton (node_link_data (graphs h a))) \<and>
   ((\<forall>G y k. has_nodes_and_links G \<longrightarrow> pg G y k = process_graph E G y k) \<longrightarrow>
      fit (E\<lparr>process_graph := pg\<rparr>) c w = fit E c w)"
proof (intro conjI impI allI)
  assume a: "canonical_graph G h = (Inr Gc, h')"
  show k: "has_nodes_and_links Gc" using a by (rule canonical_graph_keys)
  show "\<exists>nodes links. getitem Gc (PStr ''nodes'') = Inr nodes \<and> getitem Gc (PStr ''links'') = Inr links"
    using k by (auto simp: has_nodes_and_links_def getitem_def)
next
  show "canonical_graph NoGraph h = (Inr [(PStr ''nodes'', PDict []), (PStr ''links'', PDict [])], h)"
    by (simp add: canonical_graph_def merge_defaults_def skeleton_def)
  show "canonical_graph (Serialized d) h =
     (if list_all (\<lambda>p. is_str (fst p)) d then Inr (dict_update skeleton d) else Inl TypeError, h)"
    by (simp add: canonical_graph_def merge_defaults_def)
  show "dict_get (dict_update skeleton d) k =
        (case dict_get (rev d) k of Some v \<Rightarrow> Some v | None \<Rightarrow> dict_get skeleton k)" for k
    by (rule dict_get_update)
  show "fst (canonical_graph (GraphObject a) h) = Inr (dict_update skeleton (node_link_data (graphs h a)))"
    by (simp add: canonical_graph_GraphObject)
next
  assume "\<forall>G y k. has_nodes_and_links G \<longrightarrow> pg G y k = process_graph E G y k"
  then have "fit_stages (E\<lparr>process_graph := pg\<rparr>) c h = fit_stages E c h" for h
    by (intro fit_stages_process_graph) blast
  then show "fit (E\<lparr>process_graph := pg\<rparr>) c w = fit E c w"
    by (cases w) (simp add: fit_def)
qed

lemma index_sets_list_nodes:
  "getitem G (PStr ''nodes'') = Inr (PList xs) \<Longrightarrow> \<exists>e. index_sets E h G y = Inl e"
  by (simp add: index_sets_def seq_def split: sum.splits)

lemma graph_object_nodes:
  "getitem (dict_update skeleton (node_link_data g)) (PStr ''nodes'') =
     Inr (PList (map (\<lambda>(n, d). PDict (dict_update d [(PStr ''id'', n)])) (g_nodes g)))"
  by (simp add: getitem_def node_link_data_def dict_get_set)

lemma fit_stages_graph_object:
  assumes "the_G c = GraphObject a"
  shows "\<exists>e. fit_stages E c h = (Inl e, fst (alloc h (graphs h a)))"
proof -
  obtain e where "index_sets E (fst (alloc h (graphs h a)))
      (dict_update skeleton (node_link_data (graphs h a))) (the_y c) = Inl e"
    using index_sets_list_nodes [OF graph_object_nodes] by blast
  then show ?thesis
    by (simp add: fit_stages_def assms canonical_graph_GraphObject seq_def)
qed

lemma fit_graph_object:
  assumes "the_G c = GraphObject a"
  shows "\<exists>e. fit E c (h, self) = (Inl e, (fst (alloc h (graphs h a)), save_inputs c self))"
  using fit_stages_graph_object [OF assms, of E h] by (auto simp: fit_def)

text \<open>
  Claim C6. A graph object that is passed to \<^verbatim>\<open>fit\<close> is copied (the copy is the new
  object of the heap), the canonical form is computed from the copy, and the caller's
  graph is after the call what it was before, as is every other graph object that
  existed before the call, whatever the arguments are.
\<close>

theorem fit_leaves_graph_argument:
  "(the_G c = GraphObject a \<longrightarrow>
      fst (canonical_graph (the_G c) h) =
        merge_defaults (node_link_data (graphs (snd (canonical_graph (the_G c) h)) (fresh h))) \<and>
      graphs (snd (canonical_graph (the_G c) h)) (fresh h) = graphs h a \<and>
      graphs (fst (snd (fit E c (h, self)))) a = graphs h a \<and>
      (\<forall>b. b \<noteq> fresh h \<longrightarrow> graphs (fst (snd (fit E c (h, self)))) b = graphs h b)) \<and>
   (\<forall>b<fresh h. graphs (fst (snd (fit E c (h, self)))) b = graphs h b)"
proof (intro conjI impI allI)
  assume g: "the_G c = GraphObject a"
  obtain e where f: "fit E c (h, self) = (Inl e, (fst (alloc h (graphs h a)), save_inputs c self))"
    using fit_graph_object [OF g] by blast
  show "fst (canonical_graph (the_G c) h) =
        merge_defaults (node_link_data (graphs (snd (canonical_graph (the_G c) h)) (fresh h)))"
    by (simp add: g canonical_graph_def alloc_def)
  show "graphs (snd (canonical_graph (the_G c) h)) (fresh h) = graphs h a"
    by (simp add: g canonical_graph_def alloc_def)
  show "graphs (fst (snd (fit E c (h, self)))) a = graphs h a"
    by (simp add: f alloc_def)
  show "graphs (fst (snd (fit E c (h, self)))) b = graphs h b" if "b \<noteq> fresh h" for b
    using that by (simp add: f alloc_def)
next
  show "graphs (fst (snd (fit E c (h, self)))) b = graphs h b" if "b < fresh h" for b
    using that by (rule fit_old_graphs)
qed

lemma only_nodes_canonical:
  "canonical_graph (Serialized only_nodes) empty_heap =
     (Inr [(PStr ''nodes'', PDict [(PStr ''a'', PList [PInt 0])]), (PStr ''links'', PDict [])], empty_heap)"
  by (simp add: canonical_graph_def merge_defaults_def only_nodes_def skeleton_def)

theorem canonical_graph_has_nodes_and_links_witness:
  "canonical_graph (Serialized only_nodes) empty_heap =
     (Inr [(PStr ''nodes'', PDict [(PStr ''a'', PList [PInt 0])]), (PStr ''links'', PDict [])], empty_heap) \<and>
   getitem [(PStr ''nodes'', PDict [(PStr ''a'', PList [PInt 0])]), (PStr ''links'', PDict [])] (PStr ''links'')
     = Inr (PDict []) \<and>
   fit (env_spec\<lparr>process_graph := guarded_process_graph\<rparr>) two_nodes_call (empty_heap, new_instance two_nodes_call) =
     fit env_spec two_nodes_call (empty_heap, new_instance two_nodes_call)"
proof -
  have g: "\<forall>G y k. has_nodes_and_links G \<longrightarrow> guarded_process_graph G y k = process_graph env_spec G y k"
    by (simp add: guarded_process_graph_def env_spec_def)
  have "fit (env_spec\<lparr>process_graph := guarded_process_graph\<rparr>) two_nodes_call (empty_heap, new_instance two_nodes_call) =
     fit env_spec two_nodes_call (empty_heap, new_instance two_nodes_call)"
    using canonical_graph_has_nodes_and_links [of "Serialized only_nodes" empty_heap
        "[(PStr ''nodes'', PDict [(PStr ''a'', PList [PInt 0])]), (PStr ''links'', PDict [])]"
        empty_heap only_nodes 0 guarded_process_graph env_spec two_nodes_call
        "(empty_heap, new_instance two_nodes_call)"] g
    by blast
  then show ?thesis
    by (simp add: only_nodes_canonical getitem_def)
qed

lemma fitted_fresh: "fresh (fst fitted_world) = 1"
  by code_simp

lemma graph_object_call_G: "the_G graph_object_call = GraphObject 0"
  by (simp add: graph_object_call_def the_G_def no_args_def)

theorem fit_leaves_graph_argument_witness:
  "the_G graph_object_call = GraphObject 0 \<and>
   (0::nat) < fresh (fst fitted_world) \<and>
   graphs (fst (snd (fit env_spec graph_object_call (fst fitted_world, snd fitted_world)))) 0 =
     graphs (fst fitted_world) 0 \<and>
   graphs (snd (canonical_graph (the_G graph_object_call) (fst fitted_world))) (fresh (fst fitted_world)) =
     graphs (fst fitted_world) 0"
  using fit_leaves_graph_argument [of graph_object_call 0 "fst fitted_world" env_spec "snd fitted_world"]
    graph_object_call_G fitted_fresh
  by simp


subsection \<open>The time indices\<close>

lemma np_sort_range: "np_sort (map int [0..<n]) = map int [0..<n]"
proof -
  have "sorted (map int [0..<n])"
    by (simp add: sorted_wrt_map)
  then show ?thesis
    unfolding np_sort_def by (rule sorted_sort_id)
qed

lemma arange_range: "PArray (map (PInt \<circ> int) [0..<n]) = arange n"
  by (simp add: arange_def comp_def)

lemma members_set:
  "members its = Inr ms \<Longrightarrow>
     set ms = (\<Union>p\<in>set its. case py_iter (snd p) of Inr xs \<Rightarrow> set xs | Inl e \<Rightarrow> {})"
proof (induction its arbitrary: ms)
  case Nil
  then show ?case by simp
next
  case (Cons p its)
  obtain n d where p: "p = (n, d)" by (cases p)
  from Cons.prems obtain xs ys where
    xs: "py_iter d = Inr xs" and ys: "members its = Inr ys" and ms: "ms = xs @ ys"
    by (auto simp: p seq_def split: sum.splits)
  show ?case
    using Cons.IH [OF ys] by (simp add: p xs ms)
qed

lemma index_sets_labels:
  assumes "y \<noteq> Val PNone" and "index_sets E h G y = Inr (node_ids, data_ids)"
  shows "\<exists>n. obj_len h y = Inr n \<and> data_ids = arange n"
proof (cases y)
  case (Frame f)
  then show ?thesis
    using assms(2)
    by (auto simp: index_sets_def seq_def reset_index_def Let_def np_sort_range arange_range
        split: sum.splits if_splits)
next
  case (Val v)
  then show ?thesis
    using assms by (auto simp: index_sets_def seq_def split: sum.splits if_splits)
next
  case (Graph a)
  then show ?thesis
    using assms by (auto simp: index_sets_def seq_def split: sum.splits if_splits)
qed

lemma index_sets_no_labels:
  assumes "index_sets E h G (Val PNone) = Inr (node_ids, data_ids)"
  shows "\<exists>its ms. getitem G (PStr ''nodes'') = Inr (PDict its) \<and> members its = Inr ms \<and>
           np_unique E ms = Inr data_ids"
proof -
  from assms obtain nodes its ms where
    "getitem G (PStr ''nodes'') = Inr nodes" "items nodes = Inr its" "members its = Inr ms"
    "np_unique E ms = Inr data_ids"
    by (auto simp: index_sets_def seq_def split: sum.splits)
  moreover from this have "nodes = PDict its"
    by (cases nodes) simp_all
  ultimately show ?thesis by blast
qed

lemma fit_stages_data_ids:
  assumes "fst (fit_stages E c h) = Inr r"
  shows "\<exists>G node_ids. fst (canonical_graph (the_G c) h) = Inr G \<and>
           index_sets E (snd (canonical_graph (the_G c) h)) G (the_y c) = Inr (node_ids, new_data_ids r)"
  using assms
  by (cases "canonical_graph (the_G c) h")
     (auto simp: fit_stages_def seq_def split: sum.splits prod.splits)

text \<open>
  Claim C3, as amended. The time indices \<^verbatim>\<open>data_ids_\<close> of a call of \<^verbatim>\<open>fit\<close> that
  returns are those of lines 96 to 101. When \<^verbatim>\<open>y\<close> is a DataFrame they are the
  positions \<open>0, ..., len(y) - 1\<close> of its rows, whatever its own row index is (line 99
  takes the index after \<^verbatim>\<open>reset_index()\<close>); so they are for every \<^verbatim>\<open>y\<close> that is not
  \<^verbatim>\<open>None\<close> and has a length. When \<^verbatim>\<open>y\<close> is \<^verbatim>\<open>None\<close> they are what \<^verbatim>\<open>np.unique\<close> makes of
  the list of all members of all nodes of the input graph, whose set is the union of
  the members.
\<close>

theorem time_index_set:
  "(index_sets E h G (Frame f) = Inr (node_ids, data_ids) \<longrightarrow>
      data_ids = arange (length (row_labels f))) \<and>
   (y \<noteq> Val PNone \<and> index_sets E h G y = Inr (node_ids, data_ids) \<longrightarrow>
      (\<exists>n. obj_len h y = Inr n \<and> data_ids = arange n)) \<and>
   (index_sets E h G (Val PNone) = Inr (node_ids, data_ids) \<longrightarrow>
      (\<exists>its ms. getitem G (PStr ''nodes'') = Inr (PDict its) \<and> members its = Inr ms \<and>
         np_unique E ms = Inr data_ids \<and>
         set ms = (\<Union>p\<in>set its. case py_iter (snd p) of Inr xs \<Rightarrow> set xs | Inl e \<Rightarrow> {}))) \<and>
   (fit E c (h, self) = (Inr u, (h', self')) \<longrightarrow>
      (\<exists>Gc ids nodes. fst (canonical_graph (the_G c) h) = Inr Gc \<and>
         index_sets E (snd (canonical_graph (the_G c) h)) Gc (the_y c) = Inr (nodes, ids) \<and>
         attrs self' ''data_ids_'' = Some (Val ids)))"
proof (intro conjI impI)
  assume "index_sets E h G (Frame f) = Inr (node_ids, data_ids)"
  then show "data_ids = arange (length (row_labels f))"
    using index_sets_labels [of "Frame f" E h G node_ids data_ids] by auto
next
  assume "y \<noteq> Val PNone \<and> index_sets E h G y = Inr (node_ids, data_ids)"
  then show "\<exists>n. obj_len h y = Inr n \<and> data_ids = arange n"
    using index_sets_labels by blast
next
  assume a: "index_sets E h G (Val PNone) = Inr (node_ids, data_ids)"
  from index_sets_no_labels [OF a] obtain its ms where
    *: "getitem G (PStr ''nodes'') = Inr (PDict its)" "members its = Inr ms"
       "np_unique E ms = Inr data_ids"
    by blast
  show "\<exists>its ms. getitem G (PStr ''nodes'') = Inr (PDict its) \<and> members its = Inr ms \<and>
         np_unique E ms = Inr data_ids \<and>
         set ms = (\<Union>p\<in>set its. case py_iter (snd p) of Inr xs \<Rightarrow> set xs | Inl e \<Rightarrow> {})"
    using * members_set [OF *(2)] by blast
next
  assume a: "fit E c (h, self) = (Inr u, (h', self'))"
  from fit_returned [OF a] obtain r where
    r: "fst (fit_stages E c h) = Inr r"
    and w: "(h', self') = store_fit r (snd (canonical_graph (the_G c) h), save_inputs c self)"
    by blast
  have s: "self' = snd (store_fit r (snd (canonical_graph (the_G c) h), save_inputs c self))"
    using w by (metis snd_conv)
  have "attrs self' ''data_ids_'' = Some (Val (new_data_ids r))"
    by (simp add: s store_fit_attrs)
  then show "\<exists>Gc ids nodes. fst (canonical_graph (the_G c) h) = Inr Gc \<and>
         index_sets E (snd (canonical_graph (the_G c) h)) Gc (the_y c) = Inr (nodes, ids) \<and>
         attrs self' ''data_ids_'' = Some (Val ids)"
    using fit_stages_data_ids [OF r] by blast
qed

text \<open>
  Claim C3 as it is stated fails for a DataFrame: the rows of the table are labelled
  10, 20, 30 and 40, and the time indices are 0, 1, 2 and 3.
\<close>

lemma frame_fit: "fst (init env_spec frame_call empty_heap) = Inr ()"
  by code_simp

lemma frame_data_ids:
  "attrs (snd (snd (init env_spec frame_call empty_heap))) ''data_ids_'' =
     Some (Val (PArray [PInt 0, PInt 1, PInt 2, PInt 3]))"
  by code_simp

theorem data_ids_not_the_frame_index:
  "the_y frame_call = Frame labelled_frame \<and>
   row_labels labelled_frame = [PInt 10, PInt 20, PInt 30, PInt 40] \<and>
   fst (init env_spec frame_call empty_heap) = Inr () \<and>
   attrs (snd (snd (init env_spec frame_call empty_heap))) ''data_ids_'' =
     Some (Val (PArray [PInt 0, PInt 1, PInt 2, PInt 3])) \<and>
   attrs (snd (snd (init env_spec frame_call empty_heap))) ''data_ids_'' \<noteq>
     Some (Val (PArray (row_labels labelled_frame)))"
  by (simp add: frame_fit frame_data_ids)
     (simp add: frame_call_def the_y_def labelled_frame_def)

lemma two_nodes_index_sets:
  "index_sets env_spec empty_heap two_nodes (Val PNone) =
     Inr (PArray [PStr ''a'', PStr ''b''], PArray [PInt 0, PInt 1, PInt 2, PInt 3])"
  by code_simp

lemma frame_index_sets:
  "index_sets env_spec empty_heap two_nodes (Frame labelled_frame) =
     Inr (PArray [PStr ''a'', PStr ''b''], PArray [PInt 0, PInt 1, PInt 2, PInt 3])"
  by code_simp

lemma list_index_sets:
  "index_sets env_spec empty_heap two_nodes (Val (PList [PStr ''rest'', PStr ''task''])) =
     Inr (PArray [PStr ''a'', PStr ''b''], PArray [PInt 0, PInt 1])"
  by code_simp

theorem time_index_set_witness:
  "index_sets env_spec empty_heap two_nodes (Frame labelled_frame) =
     Inr (PArray [PStr ''a'', PStr ''b''], PArray [PInt 0, PInt 1, PInt 2, PInt 3]) \<and>
   PArray [PInt 0, PInt 1, PInt 2, PInt 3] = arange (length (row_labels labelled_frame)) \<and>
   Val (PList [PStr ''rest'', PStr ''task'']) \<noteq> Val PNone \<and>
   index_sets env_spec empty_heap two_nodes (Val (PList [PStr ''rest'', PStr ''task''])) =
     Inr (PArray [PStr ''a'', PStr ''b''], PArray [PInt 0, PInt 1]) \<and>
   index_sets env_spec empty_heap two_nodes (Val PNone) =
     Inr (PArray [PStr ''a'', PStr ''b''], PArray [PInt 0, PInt 1, PInt 2, PInt 3]) \<and>
   fit env_spec two_nodes_call (empty_heap, new_instance two_nodes_call) =
     (Inr (), (fst fitted_world, snd fitted_world)) \<and>
   (\<exists>ids. attrs (snd fitted_world) ''data_ids_'' = Some (Val ids))"
proof -
  have b: "fit env_spec two_nodes_call (empty_heap, new_instance two_nodes_call) =
             (Inr (), (fst fitted_world, snd fitted_world))"
    using init_two_nodes by (simp add: prod_eq_iff fitted_world_def init_def)
  have 1: "PArray [PInt 0, PInt 1, PInt 2, PInt 3] = arange (length (row_labels labelled_frame))"
    using time_index_set [of env_spec empty_heap two_nodes labelled_frame
        "PArray [PStr ''a'', PStr ''b'']" "PArray [PInt 0, PInt 1, PInt 2, PInt 3]"
        "Val (PList [PStr ''rest'', PStr ''task''])" two_nodes_call
        "new_instance two_nodes_call" "()" "fst fitted_world" "snd fitted_world"]
      frame_index_sets
    by blast
  have 2: "\<exists>ids. attrs (snd fitted_world) ''data_ids_'' = Some (Val ids)"
    using time_index_set [of env_spec empty_heap two_nodes labelled_frame
        "PArray [PStr ''a'', PStr ''b'']" "PArray [PInt 0, PInt 1, PInt 2, PInt 3]"
        "Val (PList [PStr ''rest'', PStr ''task''])" two_nodes_call
        "new_instance two_nodes_call" "()" "fst fitted_world" "snd fitted_world"]
      b
    by blast
  show ?thesis
    using 1 2 b frame_index_sets list_index_sets two_nodes_index_sets by simp
qed


subsection \<open>The mixtures\<close>

lemma nonzero_iff: "j \<in> set (nonzero row) \<longleftrightarrow> j < length row \<and> row ! j \<noteq> 0"
  by (auto simp: nonzero_def)

lemma sorted_nonzero: "sorted_wrt (<) (nonzero row)"
  by (simp add: nonzero_def sorted_wrt_filter)

lemma fit_stages_mixtures:
  "fst (fit_stages E c h) = Inr r \<Longrightarrow> new_mixtures r = mixtures (new_TCM r)"
  by (cases "fit_stages E c h") (auto simp: fit_stages_def seq_def split: prod.splits sum.splits)

text \<open>
  Claim C4. The mixtures of a TCM have one entry for each row; the entry of row \<open>t\<close> is
  the list of the columns with a non-zero entry in that row, in ascending order, so
  that \<open>j\<close> is in it exactly when \<open>TCM[t][j]\<close> is not zero. The attribute
  \<^verbatim>\<open>mixtures_\<close> that \<^verbatim>\<open>fit\<close> stores is the mixtures of the \<^verbatim>\<open>tcm_\<close> it stores.
\<close>

theorem mixtures_nonzero_columns:
  "length (mixtures TCM) = length TCM \<and>
   (\<forall>t<length TCM.
      mixtures TCM ! t = filter (\<lambda>j. TCM ! t ! j \<noteq> 0) [0..<length (TCM ! t)] \<and>
      sorted_wrt (<) (mixtures TCM ! t) \<and>
      (\<forall>j. j \<in> set (mixtures TCM ! t) \<longleftrightarrow> j < length (TCM ! t) \<and> TCM ! t ! j \<noteq> 0)) \<and>
   (fit E c (h, self) = (Inr u, (h', self')) \<longrightarrow>
      (\<exists>T. attrs self' ''tcm_'' = Some (Val (py_of_matrix T)) \<and>
           attrs self' ''mixtures_'' = Some (Val (py_of_mixtures (mixtures T)))))"
proof (intro conjI impI allI)
  show "length (mixtures TCM) = length TCM"
    by (simp add: mixtures_def)
next
  fix t assume t: "t < length TCM"
  then have m: "mixtures TCM ! t = nonzero (TCM ! t)"
    by (simp add: mixtures_def)
  show "mixtures TCM ! t = filter (\<lambda>j. TCM ! t ! j \<noteq> 0) [0..<length (TCM ! t)]"
    by (simp add: m nonzero_def)
  show "sorted_wrt (<) (mixtures TCM ! t)"
    by (simp add: m sorted_nonzero)
  show "j \<in> set (mixtures TCM ! t) \<longleftrightarrow> j < length (TCM ! t) \<and> TCM ! t ! j \<noteq> 0" for j
    by (simp add: m nonzero_iff)
next
  assume a: "fit E c (h, self) = (Inr u, (h', self'))"
  from fit_returned [OF a] obtain r where
    r: "fst (fit_stages E c h) = Inr r"
    and w: "(h', self') = store_fit r (snd (canonical_graph (the_G c) h), save_inputs c self)"
    by blast
  have s: "self' = snd (store_fit r (snd (canonical_graph (the_G c) h), save_inputs c self))"
    using w by (metis snd_conv)
  have "attrs self' ''tcm_'' = Some (Val (py_of_matrix (new_TCM r)))"
    and "attrs self' ''mixtures_'' = Some (Val (py_of_mixtures (mixtures (new_TCM r))))"
    by (simp_all add: s store_fit_attrs fit_stages_mixtures [OF r])
  then show "\<exists>T. attrs self' ''tcm_'' = Some (Val (py_of_matrix T)) \<and>
           attrs self' ''mixtures_'' = Some (Val (py_of_mixtures (mixtures T)))"
    by blast
qed

lemma example_mixtures:
  "mixtures [[1, 1, 1, 0], [1, 1, 1, 0], [1, 1, 2, 1], [0, 0, 1, 1]] =
     [[0, 1, 2], [0, 1, 2], [0, 1, 2, 3], [2, 3]]"
  by code_simp

theorem mixtures_nonzero_columns_witness:
  "(3::nat) < length [[1, 1, 1, 0], [1, 1, 1, 0], [1, 1, 2, 1], [0, 0, 1, 1::int]] \<and>
   mixtures [[1, 1, 1, 0], [1, 1, 1, 0], [1, 1, 2, 1], [0, 0, 1, 1]] =
     [[0, 1, 2], [0, 1, 2], [0, 1, 2, 3], [2, 3]] \<and>
   sorted_wrt (<) (mixtures [[1, 1, 1, 0], [1, 1, 1, 0], [1, 1, 2, 1], [0, 0, 1, 1]] ! 3) \<and>
   fit env_spec two_nodes_call (empty_heap, new_instance two_nodes_call) =
     (Inr (), (fst fitted_world, snd fitted_world)) \<and>
   (\<exists>T. attrs (snd fitted_world) ''tcm_'' = Some (Val (py_of_matrix T)) \<and>
        attrs (snd fitted_world) ''mixtures_'' = Some (Val (py_of_mixtures (mixtures T))))"
proof -
  have b: "fit env_spec two_nodes_call (empty_heap, new_instance two_nodes_call) =
             (Inr (), (fst fitted_world, snd fitted_world))"
    using init_two_nodes by (simp add: prod_eq_iff fitted_world_def init_def)
  have l: "(3::nat) < length [[1, 1, 1, 0], [1, 1, 1, 0], [1, 1, 2, 1], [0, 0, 1, 1::int]]"
    by simp
  note inst = mixtures_nonzero_columns [of "[[1, 1, 1, 0], [1, 1, 1, 0], [1, 1, 2, 1], [0, 0, 1, 1]]"
      env_spec two_nodes_call empty_heap "new_instance two_nodes_call" "()"
      "fst fitted_world" "snd fitted_world"]
  have 1: "sorted_wrt (<) (mixtures [[1, 1, 1, 0], [1, 1, 1, 0], [1, 1, 2, 1], [0, 0, 1, 1]] ! 3)"
    using inst l by blast
  have 2: "\<exists>T. attrs (snd fitted_world) ''tcm_'' = Some (Val (py_of_matrix T)) \<and>
        attrs (snd fitted_world) ''mixtures_'' = Some (Val (py_of_mixtures (mixtures T)))"
    using inst b by blast
  show ?thesis using l 1 2 b example_mixtures by blast
qed


subsection \<open>The annotation methods\<close>

lemma set_node_attributes_keys: "map fst (set_node_attributes nodes values name) = map fst nodes"
proof (induction "values" arbitrary: nodes)
  case Nil
  show ?case by simp
next
  case (Cons p "values")
  obtain n v where p: "p = (n, v)" by (cases p)
  have "map fst (map (\<lambda>(m, d). if m = n then (m, dict_set d name v) else (m, d)) nodes) = map fst nodes"
    by (induction nodes) auto
  then show ?case by (simp add: p Cons.IH)
qed

lemma graphs_update_graph:
  "graphs (update_graph a f h) b = (if b = a then f (graphs h a) else graphs h b)"
  by (simp add: update_graph_def)

lemma fresh_update_graph: "fresh (update_graph a f h) = fresh h"
  by (simp add: update_graph_def)

lemma only_node_attrs_refl: "only_node_attrs g g"
  by (simp add: only_node_attrs_def)

lemma only_node_attrs_trans:
  "only_node_attrs g g' \<Longrightarrow> only_node_attrs g' g'' \<Longrightarrow> only_node_attrs g g''"
  by (simp add: only_node_attrs_def)

lemma only_node_attrs_set:
  "only_node_attrs g (g\<lparr>g_nodes := set_node_attributes (g_nodes g) values name\<rparr>)"
  by (simp add: only_node_attrs_def set_node_attributes_keys)

lemma graph_attr_Inr: "graph_attr self name = Inr a \<longleftrightarrow> attrs self name = Some (Graph a)"
  by (auto simp: graph_attr_def split: option.splits obj.splits)

lemma annotate_nodes_frame:
  "annotate_nodes kwargs w = (r, w') \<Longrightarrow>
     snd w' = snd w \<and> fresh (fst w') = fresh (fst w) \<and>
     (\<forall>b. only_node_attrs (graphs (fst w) b) (graphs (fst w') b)) \<and>
     (\<forall>b. attrs (snd w) ''G_'' \<noteq> Some (Graph b) \<longrightarrow> graphs (fst w') b = graphs (fst w) b)"
proof (induction kwargs arbitrary: w r w')
  case Nil
  then show ?case by (auto simp: only_node_attrs_refl)
next
  case (Cons p kwargs)
  obtain name "values" where p: "p = (name, values)" by (cases p)
  show ?case
  proof (cases "graph_attr (snd w) ''G_''")
    case (Inl e)
    then show ?thesis using Cons.prems by (auto simp: p only_node_attrs_refl)
  next
    case (Inr a)
    define h1 where "h1 = update_graph a (\<lambda>g. g\<lparr>g_nodes := set_node_attributes (g_nodes g)
        (dict_update [] (zip (map fst (g_nodes (graphs (fst w) a)))
           (node_values values (map fst (g_nodes (graphs (fst w) a)))))) (PStr name)\<rparr>) (fst w)"
    have step: "annotate_nodes kwargs (h1, snd w) = (r, w')"
      using Cons.prems by (simp add: p Inr Let_def h1_def)
    have G: "attrs (snd w) ''G_'' = Some (Graph a)"
      using Inr by (simp add: graph_attr_Inr)
    have one: "only_node_attrs (graphs (fst w) b) (graphs h1 b)" for b
      by (simp add: h1_def graphs_update_graph only_node_attrs_set only_node_attrs_refl)
    have other: "graphs h1 b = graphs (fst w) b" if "b \<noteq> a" for b
      using that by (simp add: h1_def graphs_update_graph)
    have f: "fresh h1 = fresh (fst w)"
      by (simp add: h1_def fresh_update_graph)
    from Cons.IH [OF step] have
      ih1: "snd w' = snd w" and ih2: "fresh (fst w') = fresh h1"
      and ih3: "\<And>b. only_node_attrs (graphs h1 b) (graphs (fst w') b)"
      and ih4: "\<And>b. attrs (snd w) ''G_'' \<noteq> Some (Graph b) \<Longrightarrow> graphs (fst w') b = graphs h1 b"
      by auto
    show ?thesis
    proof (intro conjI allI impI)
      show "snd w' = snd w" by (rule ih1)
      show "fresh (fst w') = fresh (fst w)" using ih2 f by simp
      show "only_node_attrs (graphs (fst w) b) (graphs (fst w') b)" for b
        using one ih3 by (rule only_node_attrs_trans)
      show "graphs (fst w') b = graphs (fst w) b" if "attrs (snd w) ''G_'' \<noteq> Some (Graph b)" for b
        using ih4 [OF that] other [of b] that G by auto
    qed
  qed
qed

lemma annotate_members_frame:
  "annotate_members kwargs w = (r, w') \<Longrightarrow>
     snd w' = snd w \<and> fresh (fst w') = fresh (fst w) \<and>
     (\<forall>b. only_node_attrs (graphs (fst w) b) (graphs (fst w') b)) \<and>
     (\<forall>b. attrs (snd w) ''G_data_'' \<noteq> Some (Graph b) \<longrightarrow> graphs (fst w') b = graphs (fst w) b)"
proof (induction kwargs arbitrary: w r w')
  case Nil
  then show ?case by (auto simp: only_node_attrs_refl)
next
  case (Cons p kwargs)
  obtain name "values" where p: "p = (name, values)" by (cases p)
  show ?case
  proof (cases "attrs (snd w) ''G_data_''")
    case None
    then show ?thesis using Cons.prems by (auto simp: p getattr_def only_node_attrs_refl)
  next
    case (Some G_data)
    show ?thesis
    proof (cases G_data)
      case (Graph a)
      define h1 where "h1 = update_graph a (\<lambda>g. g\<lparr>g_nodes := set_node_attributes (g_nodes g)
          (dict_update [] (zip (map fst (g_nodes (graphs (fst w) a))) (member_values values)))
          (PStr name)\<rparr>) (fst w)"
      have step: "annotate_members kwargs (h1, snd w) = (r, w')"
        using Cons.prems by (simp add: p Some Graph getattr_def Let_def h1_def)
      have one: "only_node_attrs (graphs (fst w) b) (graphs h1 b)" for b
        by (simp add: h1_def graphs_update_graph only_node_attrs_set only_node_attrs_refl)
      have other: "graphs h1 b = graphs (fst w) b" if "b \<noteq> a" for b
        using that by (simp add: h1_def graphs_update_graph)
      have f: "fresh h1 = fresh (fst w)"
        by (simp add: h1_def fresh_update_graph)
      from Cons.IH [OF step] have
        ih1: "snd w' = snd w" and ih2: "fresh (fst w') = fresh h1"
        and ih3: "\<And>b. only_node_attrs (graphs h1 b) (graphs (fst w') b)"
        and ih4: "\<And>b. attrs (snd w) ''G_data_'' \<noteq> Some (Graph b) \<Longrightarrow> graphs (fst w') b = graphs h1 b"
        by auto
      show ?thesis
      proof (intro conjI allI impI)
        show "snd w' = snd w" by (rule ih1)
        show "fresh (fst w') = fresh (fst w)" using ih2 f by simp
        show "only_node_attrs (graphs (fst w) b) (graphs (fst w') b)" for b
          using one ih3 by (rule only_node_attrs_trans)
        show "graphs (fst w') b = graphs (fst w) b"
          if "attrs (snd w) ''G_data_'' \<noteq> Some (Graph b)" for b
          using ih4 [OF that] other [of b] that Some Graph by auto
      qed
    next
      case (Val v)
      have "(\<exists>e. (r, w') = (Inl e, w)) \<or> annotate_members kwargs w = (r, w')"
        using Cons.prems
        by (auto simp: p Some Val getattr_def dict_of_def split: sum.splits if_splits)
      then show ?thesis
        using Cons.IH [of w r w'] by (auto simp: only_node_attrs_refl)
    next
      case (Frame f)
      have "(\<exists>e. (r, w') = (Inl e, w)) \<or> annotate_members kwargs w = (r, w')"
        using Cons.prems
        by (auto simp: p Some Frame getattr_def dict_of_def split: sum.splits if_splits)
      then show ?thesis
        using Cons.IH [of w r w'] by (auto simp: only_node_attrs_refl)
    qed
  qed
qed

lemma annotate_graph_frame:
  assumes "annotate_graph kwargs w = (r, w')"
  shows "snd w' = snd w \<and> fresh (fst w') = fresh (fst w) \<and>
     (\<forall>b. only_graph_attrs (graphs (fst w) b) (graphs (fst w') b)) \<and>
     (\<forall>b. attrs (snd w) ''G_'' \<noteq> Some (Graph b) \<longrightarrow> graphs (fst w') b = graphs (fst w) b)"
proof (cases "graph_attr (snd w) ''G_''")
  case (Inl e)
  then have "w' = w"
    using assms by (auto simp: annotate_graph_def)
  then show ?thesis
    by (simp add: only_graph_attrs_def)
next
  case (Inr a)
  then have G: "attrs (snd w) ''G_'' = Some (Graph a)"
    by (simp add: graph_attr_Inr)
  have w': "w' = (update_graph a
      (\<lambda>g. g\<lparr>g_graph := dict_update (g_graph g) (map (\<lambda>(k, v). (PStr k, v)) kwargs)\<rparr>) (fst w), snd w)"
    using Inr assms by (auto simp: annotate_graph_def)
  show ?thesis
    by (simp add: w' G graphs_update_graph fresh_update_graph only_graph_attrs_def)
qed

text \<open>
  Claim C7. A call of \<^verbatim>\<open>annotate_nodes\<close>, \<^verbatim>\<open>annotate_members\<close> or \<^verbatim>\<open>annotate_graph\<close>,
  whether it returns or raises, leaves every attribute of the instance as it is, the
  matrices \<^verbatim>\<open>adj_\<close>, \<^verbatim>\<open>map_\<close>, \<^verbatim>\<open>tcm_\<close> and the \<^verbatim>\<open>mixtures_\<close> among them. Of the graph
  objects only the stored one changes (\<^verbatim>\<open>G_\<close>, for \<^verbatim>\<open>annotate_members\<close> the graph
  \<^verbatim>\<open>G_data_\<close> of the time indices), and only in the attribute dictionaries of its nodes,
  for \<^verbatim>\<open>annotate_graph\<close> in the attributes of the graph.
\<close>

theorem annotations_keep_matrices:
  "(annotate_nodes kwargs w = (r, w') \<longrightarrow>
      snd w' = snd w \<and>
      list_all (\<lambda>name. attrs (snd w') name = attrs (snd w) name) [''adj_'', ''map_'', ''tcm_'', ''mixtures_''] \<and>
      (\<forall>b. only_node_attrs (graphs (fst w) b) (graphs (fst w') b)) \<and>
      (\<forall>b. attrs (snd w) ''G_'' \<noteq> Some (Graph b) \<longrightarrow> graphs (fst w') b = graphs (fst w) b)) \<and>
   (annotate_members kwargs w = (r, w') \<longrightarrow>
      snd w' = snd w \<and>
      list_all (\<lambda>name. attrs (snd w') name = attrs (snd w) name) [''adj_'', ''map_'', ''tcm_'', ''mixtures_''] \<and>
      (\<forall>b. only_node_attrs (graphs (fst w) b) (graphs (fst w') b)) \<and>
      (\<forall>b. attrs (snd w) ''G_data_'' \<noteq> Some (Graph b) \<longrightarrow> graphs (fst w') b = graphs (fst w) b)) \<and>
   (annotate_graph kwargs w = (r, w') \<longrightarrow>
      snd w' = snd w \<and>
      list_all (\<lambda>name. attrs (snd w') name = attrs (snd w) name) [''adj_'', ''map_'', ''tcm_'', ''mixtures_''] \<and>
      (\<forall>b. only_graph_attrs (graphs (fst w) b) (graphs (fst w') b)) \<and>
      (\<forall>b. attrs (snd w) ''G_'' \<noteq> Some (Graph b) \<longrightarrow> graphs (fst w') b = graphs (fst w) b))"
  using annotate_nodes_frame [of kwargs w r w'] annotate_members_frame [of kwargs w r w']
    annotate_graph_frame [of kwargs w r w']
  by simp

lemma nodes_blue: "fst (annotate_nodes [(''color'', PList [PStr ''blue''])] fitted_world) = Inr ()"
  by code_simp

lemma members_image: "fst (annotate_members [(''image'', PList [PStr ''i0'', PStr ''i1''])] grouped_world) = Inr ()"
  by code_simp

lemma graph_title: "fst (annotate_graph [(''title'', PStr ''t'')] fitted_world) = Inr ()"
  by code_simp

theorem annotations_keep_matrices_witness:
  "annotate_nodes [(''color'', PList [PStr ''blue''])] fitted_world =
     (Inr (), snd (annotate_nodes [(''color'', PList [PStr ''blue''])] fitted_world)) \<and>
   attrs (snd (snd (annotate_nodes [(''color'', PList [PStr ''blue''])] fitted_world))) ''tcm_'' =
     attrs (snd fitted_world) ''tcm_'' \<and>
   annotate_members [(''image'', PList [PStr ''i0'', PStr ''i1''])] grouped_world =
     (Inr (), snd (annotate_members [(''image'', PList [PStr ''i0'', PStr ''i1''])] grouped_world)) \<and>
   attrs (snd (snd (annotate_members [(''image'', PList [PStr ''i0'', PStr ''i1''])] grouped_world))) ''tcm_'' =
     attrs (snd grouped_world) ''tcm_'' \<and>
   annotate_graph [(''title'', PStr ''t'')] fitted_world =
     (Inr (), snd (annotate_graph [(''title'', PStr ''t'')] fitted_world)) \<and>
   attrs (snd (snd (annotate_graph [(''title'', PStr ''t'')] fitted_world))) ''tcm_'' =
     attrs (snd fitted_world) ''tcm_''"
proof -
  let ?N = "annotate_nodes [(''color'', PList [PStr ''blue''])] fitted_world"
  let ?M = "annotate_members [(''image'', PList [PStr ''i0'', PStr ''i1''])] grouped_world"
  let ?G = "annotate_graph [(''title'', PStr ''t'')] fitted_world"
  have n: "?N = (Inr (), snd ?N)" using nodes_blue by (simp add: prod_eq_iff)
  have m: "?M = (Inr (), snd ?M)" using members_image by (simp add: prod_eq_iff)
  have g: "?G = (Inr (), snd ?G)" using graph_title by (simp add: prod_eq_iff)
  have 1: "attrs (snd (snd ?N)) ''tcm_'' = attrs (snd fitted_world) ''tcm_''"
    using annotations_keep_matrices [of "[(''color'', PList [PStr ''blue''])]" fitted_world
        "Inr ()" "snd ?N"] n
    by simp
  have 2: "attrs (snd (snd ?M)) ''tcm_'' = attrs (snd grouped_world) ''tcm_''"
    using annotations_keep_matrices [of "[(''image'', PList [PStr ''i0'', PStr ''i1''])]" grouped_world
        "Inr ()" "snd ?M"] m
    by simp
  have 3: "attrs (snd (snd ?G)) ''tcm_'' = attrs (snd fitted_world) ''tcm_''"
    using annotations_keep_matrices [of "[(''title'', PStr ''t'')]" fitted_world
        "Inr ()" "snd ?G"] g
    by simp
  show ?thesis using n m g 1 2 3 by blast
qed


subsection \<open>Values that are fewer than the nodes\<close>

lemma dict_get_None: "k \<notin> fst ` set d \<Longrightarrow> dict_get d k = None"
  by (induction d) auto

lemma dict_get_distinct: "distinct (map fst d) \<Longrightarrow> (k, v) \<in> set d \<Longrightarrow> dict_get d k = Some v"
  by (induction d) (auto simp: rev_image_eqI)

lemma dict_set_new: "k \<notin> fst ` set d \<Longrightarrow> dict_set d k v = d @ [(k, v)]"
  by (induction d) auto

lemma dict_update_distinct: "distinct (map fst (d @ ps)) \<Longrightarrow> dict_update d ps = d @ ps"
proof (induction ps arbitrary: d)
  case Nil
  show ?case by simp
next
  case (Cons p ps)
  obtain k v where p: "p = (k, v)" by (cases p)
  have new: "k \<notin> fst ` set d" using Cons.prems by (auto simp: p)
  have "distinct (map fst ((d @ [(k, v)]) @ ps))" using Cons.prems by (simp add: p)
  then have "dict_update (d @ [(k, v)]) ps = (d @ [(k, v)]) @ ps" by (rule Cons.IH)
  then show ?case by (simp add: p dict_set_new [OF new])
qed

lemma set_node_attributes_pointwise:
  "distinct (map fst values) \<Longrightarrow>
     set_node_attributes nodes values name =
       map (\<lambda>(m, d). (m, case dict_get values m of None \<Rightarrow> d | Some v \<Rightarrow> dict_set d name v)) nodes"
proof (induction "values" arbitrary: nodes)
  case Nil
  show ?case by simp
next
  case (Cons p "values")
  obtain n v where p: "p = (n, v)" by (cases p)
  have n: "dict_get values n = None"
    using Cons.prems by (intro dict_get_None) (simp add: p)
  have d: "distinct (map fst values)" using Cons.prems by simp
  show ?case
    by (auto simp: p Cons.IH [OF d] n split_def split: option.splits)
qed

lemma dict_get_zip:
  "distinct ks \<Longrightarrow> i < length ks \<Longrightarrow>
     dict_get (zip ks vs) (ks ! i) = (if i < length vs then Some (vs ! i) else None)"
proof (induction ks arbitrary: i vs)
  case Nil
  then show ?case by simp
next
  case (Cons k ks)
  show ?case
  proof (cases vs)
    case Nil
    then show ?thesis by simp
  next
    case (Cons v vs')
    show ?thesis
    proof (cases i)
      case 0
      then show ?thesis by (simp add: Cons)
    next
      case (Suc j)
      have "ks ! j \<noteq> k" using Cons.prems Suc by auto
      then show ?thesis
        using Cons.IH [of j vs'] Cons.prems Suc by (simp add: Cons)
    qed
  qed
qed

lemma annotate_step_attr:
  assumes "distinct (map fst nodes)" and "i < length nodes"
  shows "dict_get (snd (set_node_attributes nodes (dict_update [] (zip (map fst nodes) vs)) name ! i)) name' =
           (if name' = name \<and> i < length vs then Some (vs ! i) else dict_get (snd (nodes ! i)) name')"
proof -
  have dz: "distinct (map fst (zip (map fst nodes) vs))"
    using assms(1) by (simp add: map_fst_zip_take)
  then have u: "dict_update [] (zip (map fst nodes) vs) = zip (map fst nodes) vs"
    using dict_update_distinct [of "[]" "zip (map fst nodes) vs"] by simp
  have g: "dict_get (zip (map fst nodes) vs) (fst (nodes ! i)) =
             (if i < length vs then Some (vs ! i) else None)"
    using dict_get_zip [of "map fst nodes" i vs] assms by simp
  show ?thesis
    using assms(2)
    by (simp add: u set_node_attributes_pointwise [OF dz] split_def g dict_get_set)
qed

lemma annotate_nodes_attrs:
  assumes "attrs (snd w) ''G_'' = Some (Graph a)"
    and "distinct (map fst (g_nodes (graphs (fst w) a)))"
    and "distinct (map fst kwargs)"
  shows "fst (annotate_nodes kwargs w) = Inr () \<and>
         map fst (g_nodes (graphs (fst (snd (annotate_nodes kwargs w))) a)) =
           map fst (g_nodes (graphs (fst w) a)) \<and>
         (\<forall>name i. i < length (g_nodes (graphs (fst w) a)) \<longrightarrow>
            node_attr (graphs (fst (snd (annotate_nodes kwargs w))) a) i name =
              (case dict_get kwargs name of
                 None \<Rightarrow> node_attr (graphs (fst w) a) i name
               | Some values \<Rightarrow>
                   (if i < length (node_values values (map fst (g_nodes (graphs (fst w) a))))
                    then Some (node_values values (map fst (g_nodes (graphs (fst w) a))) ! i)
                    else node_attr (graphs (fst w) a) i name)))"
  using assms
proof (induction kwargs arbitrary: w)
  case Nil
  show ?case by simp
next
  case (Cons p kwargs)
  obtain n0 v0 where p: "p = (n0, v0)" by (cases p)
  let ?ks = "map fst (g_nodes (graphs (fst w) a))"
  let ?vs = "node_values v0 ?ks"
  define h1 where "h1 = update_graph a (\<lambda>g. g\<lparr>g_nodes := set_node_attributes (g_nodes g)
        (dict_update [] (zip ?ks ?vs)) (PStr n0)\<rparr>) (fst w)"
  have G: "graph_attr (snd w) ''G_'' = Inr a"
    using Cons.prems(1) by (simp add: graph_attr_Inr)
  have unfold: "annotate_nodes (p # kwargs) w = annotate_nodes kwargs (h1, snd w)"
    by (simp add: p G Let_def h1_def)
  have nodes1: "g_nodes (graphs h1 a) =
      set_node_attributes (g_nodes (graphs (fst w) a)) (dict_update [] (zip ?ks ?vs)) (PStr n0)"
    by (simp add: h1_def graphs_update_graph)
  have keys1: "map fst (g_nodes (graphs h1 a)) = ?ks"
    by (simp add: nodes1 set_node_attributes_keys)
  have len1: "length (g_nodes (graphs h1 a)) = length (g_nodes (graphs (fst w) a))"
    using keys1 by (metis length_map)
  have attr1: "node_attr (graphs h1 a) i name =
      (if name = n0 \<and> i < length ?vs then Some (?vs ! i) else node_attr (graphs (fst w) a) i name)"
    if "i < length (g_nodes (graphs (fst w) a))" for i name
    using annotate_step_attr [OF Cons.prems(2) that, of ?vs "PStr n0" "PStr name"]
    by (simp add: node_attr_def nodes1)
  have ih: "fst (annotate_nodes kwargs (h1, snd w)) = Inr () \<and>
         map fst (g_nodes (graphs (fst (snd (annotate_nodes kwargs (h1, snd w)))) a)) = ?ks \<and>
         (\<forall>name i. i < length (g_nodes (graphs h1 a)) \<longrightarrow>
            node_attr (graphs (fst (snd (annotate_nodes kwargs (h1, snd w)))) a) i name =
              (case dict_get kwargs name of
                 None \<Rightarrow> node_attr (graphs h1 a) i name
               | Some values \<Rightarrow>
                   (if i < length (node_values values ?ks)
                    then Some (node_values values ?ks ! i)
                    else node_attr (graphs h1 a) i name)))"
  proof -
    have 1: "attrs (snd (h1, snd w)) ''G_'' = Some (Graph a)"
      using Cons.prems(1) by simp
    have 2: "distinct (map fst (g_nodes (graphs (fst (h1, snd w)) a)))"
      using Cons.prems(2) keys1 by simp
    have 3: "distinct (map fst kwargs)"
      using Cons.prems(3) by simp
    show ?thesis
      using Cons.IH [OF 1 2 3] unfolding fst_conv snd_conv keys1 .
  qed
  have notin: "dict_get kwargs n0 = None"
    using Cons.prems(3) by (intro dict_get_None) (simp add: p)
  show ?case
  proof (intro conjI allI impI)
    show "fst (annotate_nodes (p # kwargs) w) = Inr ()"
      using ih by (simp add: unfold)
    show "map fst (g_nodes (graphs (fst (snd (annotate_nodes (p # kwargs) w))) a)) = ?ks"
      using ih keys1 by (simp add: unfold)
  next
    fix name i assume i: "i < length (g_nodes (graphs (fst w) a))"
    then have i1: "i < length (g_nodes (graphs h1 a))" using len1 by simp
    have "node_attr (graphs (fst (snd (annotate_nodes kwargs (h1, snd w)))) a) i name =
              (case dict_get kwargs name of
                 None \<Rightarrow> node_attr (graphs h1 a) i name
               | Some values \<Rightarrow>
                   (if i < length (node_values values ?ks)
                    then Some (node_values values ?ks ! i)
                    else node_attr (graphs h1 a) i name))"
      using ih i1 keys1 by simp
    then show "node_attr (graphs (fst (snd (annotate_nodes (p # kwargs) w))) a) i name =
              (case dict_get (p # kwargs) name of
                 None \<Rightarrow> node_attr (graphs (fst w) a) i name
               | Some values \<Rightarrow>
                   (if i < length (node_values values ?ks)
                    then Some (node_values values ?ks ! i)
                    else node_attr (graphs (fst w) a) i name))"
      unfolding unfold using notin by (auto simp: p attr1 [OF i] split: option.splits)
  qed
qed

text \<open>
  Claim C8. The values that \<^verbatim>\<open>annotate_nodes\<close> zips against the nodes are the items of
  a list or an array, or the keys of a dictionary. When the stored graph has \<open>n\<close> nodes
  and the values are \<open>k\<close>, the call does not raise, the first \<open>min k n\<close> nodes get
  their value as the attribute, and the other nodes are left as they are for this
  attribute: a node that had no such attribute has none afterwards.
\<close>

theorem annotate_nodes_truncates:
  "node_values (PList xs) ns = xs \<and> node_values (PArray xs) ns = xs \<and>
   node_values (PDict d) ns = map fst d \<and>
   (attrs (snd w) ''G_'' = Some (Graph a) \<and>
    distinct (map fst (g_nodes (graphs (fst w) a))) \<and>
    distinct (map fst kwargs) \<and> (name, values) \<in> set kwargs \<and>
    node_values values (map fst (g_nodes (graphs (fst w) a))) = vs \<longrightarrow>
      fst (annotate_nodes kwargs w) = Inr () \<and>
      (\<forall>i<length (g_nodes (graphs (fst w) a)).
         node_attr (graphs (fst (snd (annotate_nodes kwargs w))) a) i name =
           (if i < length vs then Some (vs ! i) else node_attr (graphs (fst w) a) i name)) \<and>
      (\<forall>i<length (g_nodes (graphs (fst w) a)).
         length vs \<le> i \<and> node_attr (graphs (fst w) a) i name = None \<longrightarrow>
           node_attr (graphs (fst (snd (annotate_nodes kwargs w))) a) i name = None))"
proof (intro conjI impI)
  show "node_values (PList xs) ns = xs" "node_values (PArray xs) ns = xs"
    "node_values (PDict d) ns = map fst d"
    by (simp_all add: node_values_def)
next
  assume a: "attrs (snd w) ''G_'' = Some (Graph a) \<and>
    distinct (map fst (g_nodes (graphs (fst w) a))) \<and>
    distinct (map fst kwargs) \<and> (name, values) \<in> set kwargs \<and>
    node_values values (map fst (g_nodes (graphs (fst w) a))) = vs"
  then have g: "dict_get kwargs name = Some values"
    by (simp add: dict_get_distinct)
  note r = annotate_nodes_attrs [of w a kwargs]
  show "fst (annotate_nodes kwargs w) = Inr ()"
    using r a by blast
  show *: "\<forall>i<length (g_nodes (graphs (fst w) a)).
         node_attr (graphs (fst (snd (annotate_nodes kwargs w))) a) i name =
           (if i < length vs then Some (vs ! i) else node_attr (graphs (fst w) a) i name)"
    using r a g by auto
  show "\<forall>i<length (g_nodes (graphs (fst w) a)).
         length vs \<le> i \<and> node_attr (graphs (fst w) a) i name = None \<longrightarrow>
           node_attr (graphs (fst (snd (annotate_nodes kwargs w))) a) i name = None"
    using * by auto
qed

lemma fitted_G_attr: "attrs (snd fitted_world) ''G_'' = Some (Graph 0)"
  by code_simp

lemma fitted_nodes:
  "g_nodes (graphs (fst fitted_world) 0) =
     [(PStr ''a'', [(PStr ''members'', PList [PInt 0, PInt 1, PInt 2])]),
      (PStr ''b'', [(PStr ''members'', PList [PInt 2, PInt 3])])]"
  by code_simp

theorem annotate_nodes_truncates_witness:
  "attrs (snd fitted_world) ''G_'' = Some (Graph 0) \<and>
   distinct (map fst (g_nodes (graphs (fst fitted_world) 0))) \<and>
   length (g_nodes (graphs (fst fitted_world) 0)) = 2 \<and>
   node_values (PList [PStr ''blue'']) (map fst (g_nodes (graphs (fst fitted_world) 0))) = [PStr ''blue''] \<and>
   fst (annotate_nodes [(''color'', PList [PStr ''blue''])] fitted_world) = Inr () \<and>
   node_attr (graphs (fst (snd (annotate_nodes [(''color'', PList [PStr ''blue''])] fitted_world))) 0) 0 ''color'' =
     Some (PStr ''blue'') \<and>
   node_attr (graphs (fst (snd (annotate_nodes [(''color'', PList [PStr ''blue''])] fitted_world))) 0) 1 ''color'' =
     None"
proof -
  have d: "distinct (map fst (g_nodes (graphs (fst fitted_world) 0)))"
    by (simp add: fitted_nodes)
  have l: "length (g_nodes (graphs (fst fitted_world) 0)) = 2"
    by (simp add: fitted_nodes)
  have v: "node_values (PList [PStr ''blue'']) (map fst (g_nodes (graphs (fst fitted_world) 0))) = [PStr ''blue'']"
    by (simp add: node_values_def)
  have b: "node_attr (graphs (fst fitted_world) 0) 1 ''color'' = None"
    by (simp add: node_attr_def fitted_nodes)
  have h: "attrs (snd fitted_world) ''G_'' = Some (Graph 0) \<and>
    distinct (map fst (g_nodes (graphs (fst fitted_world) 0))) \<and>
    distinct (map fst [(''color'', PList [PStr ''blue''])]) \<and>
    (''color'', PList [PStr ''blue'']) \<in> set [(''color'', PList [PStr ''blue''])] \<and>
    node_values (PList [PStr ''blue'']) (map fst (g_nodes (graphs (fst fitted_world) 0))) = [PStr ''blue'']"
    using fitted_G_attr d v by simp
  have r: "fst (annotate_nodes [(''color'', PList [PStr ''blue''])] fitted_world) = Inr () \<and>
      (\<forall>i<length (g_nodes (graphs (fst fitted_world) 0)).
         node_attr (graphs (fst (snd (annotate_nodes [(''color'', PList [PStr ''blue''])] fitted_world))) 0) i ''color'' =
           (if i < length [PStr ''blue''] then Some ([PStr ''blue''] ! i)
            else node_attr (graphs (fst fitted_world) 0) i ''color''))"
    using annotate_nodes_truncates [of _ _ _ fitted_world 0 "[(''color'', PList [PStr ''blue''])]"
        "''color''" "PList [PStr ''blue'']" "[PStr ''blue'']"] h
    by blast
  have 0: "node_attr (graphs (fst (snd (annotate_nodes [(''color'', PList [PStr ''blue''])] fitted_world))) 0) 0 ''color'' =
     Some (PStr ''blue'')"
    using r l by simp
  have 1: "node_attr (graphs (fst (snd (annotate_nodes [(''color'', PList [PStr ''blue''])] fitted_world))) 0) 1 ''color'' =
     None"
    using r l b by simp
  show ?thesis
    using fitted_G_attr d l v r 0 1 by blast
qed


subsection \<open>\<^verbatim>\<open>inverse_transform\<close>\<close>

lemma setattr_other: "n \<noteq> name \<Longrightarrow> attrs (setattr name v self) n = attrs self n"
  by (simp add: attrs_setattr)

lemma cache_attrs: "attrs (snd (cache args kwargs self)) = attrs self"
  by (simp add: cache_def Let_def split: sum.splits)

lemma fit_G_inverse: "attrs (snd (snd (fit E c w))) ''G_inverse_'' = attrs (snd w) ''G_inverse_''"
proof (cases w)
  case (Pair h self)
  show ?thesis
    by (cases "fst (fit_stages E c h)")
       (simp_all add: Pair fit_cases store_fit_attrs save_inputs_attrs)
qed

lemma fit_transform_G_inverse:
  "attrs (snd (snd (fit_transform E G y w))) ''G_inverse_'' = attrs (snd w) ''G_inverse_''"
proof -
  let ?c = "\<lparr>arg_G = Some G, arg_X = None, arg_y = Some y, arg_node_data = None,
             arg_edge_data = None, arg_G_data = None, arg_kwargs = []\<rparr>"
  have "snd (fit_transform E G y w) = snd (fit E ?c w)"
    by (simp add: fit_transform_def split: prod.splits sum.splits)
  then show ?thesis by (simp add: fit_G_inverse)
qed

lemma transform_world: "snd (transform E X y w) = w"
  by (auto simp: transform_def transform_body_unbound split: sum.splits prod.splits)

lemma annotate_G_inverse:
  "attrs (snd (snd (annotate E kwargs w))) ''G_inverse_'' = attrs (snd w) ''G_inverse_''"
  by (cases w) (simp add: annotate_def attrs_setattr split: sum.splits prod.splits)

lemma annotate_nodes_self: "snd (snd (annotate_nodes kwargs w)) = snd w"
  using annotate_nodes_frame [of kwargs w "fst (annotate_nodes kwargs w)" "snd (annotate_nodes kwargs w)"]
  by simp

lemma annotate_members_self: "snd (snd (annotate_members kwargs w)) = snd w"
  using annotate_members_frame [of kwargs w "fst (annotate_members kwargs w)" "snd (annotate_members kwargs w)"]
  by simp

lemma annotate_graph_self: "snd (snd (annotate_graph kwargs w)) = snd w"
  using annotate_graph_frame [of kwargs w "fst (annotate_graph kwargs w)" "snd (annotate_graph kwargs w)"]
  by simp

lemma set_color_self: "snd (snd (set_color color_functions w)) = snd w"
  by (simp add: set_color_def Let_def split: sum.splits)

lemma set_custom_self: "snd (snd (set_custom custom_data w)) = snd w"
  by (cases custom_data) (simp_all add: set_custom_def annotate_graph_self)

lemma wseq_G_inverse:
  assumes "attrs (snd (snd m)) ''G_inverse_'' = v"
    and "\<And>x w. attrs (snd w) ''G_inverse_'' = v \<Longrightarrow> attrs (snd (snd (f x w))) ''G_inverse_'' = v"
  shows "attrs (snd (snd (wseq m f))) ''G_inverse_'' = v"
proof -
  obtain r w where m: "m = (r, w)" by (metis surj_pair)
  show ?thesis
    using assms by (cases r) (auto simp: wseq_def m)
qed

lemma visualize_G_inverse:
  "attrs (snd (snd (visualize E path_html json_graph color_functions custom_data plot_tcm kwargs w))) ''G_inverse_'' =
     attrs (snd w) ''G_inverse_''"
  unfolding visualize_def
  by (intro wseq_G_inverse) (simp_all add: set_color_self set_custom_self attrs_setattr)

lemma invoke_G_inverse:
  "attrs (snd (invoke E m w)) ''G_inverse_'' = attrs (snd w) ''G_inverse_''"
proof (cases m)
  case (Sample X y)
  then show ?thesis by (cases w) (simp add: sample_def attrs_setattr)
qed (simp_all add: cache_attrs fit_G_inverse inverse_transform_def fit_transform_G_inverse
      transform_world annotate_G_inverse annotate_nodes_self annotate_members_self
      annotate_graph_self visualize_G_inverse)

lemma invoke_all_G_inverse:
  "attrs (snd (invoke_all E ms w)) ''G_inverse_'' = attrs (snd w) ''G_inverse_''"
  by (induction ms arbitrary: w) (simp_all add: invoke_G_inverse)

lemma init_G_inverse: "attrs (snd (snd (init E c h))) ''G_inverse_'' = None"
  by (simp add: init_def fit_G_inverse new_instance_def)

text \<open>
  Claim C9. No method of the class assigns the attribute \<^verbatim>\<open>G_inverse_\<close>: whatever
  methods are called on an instance, in whatever order and whether they return or
  raise, the attribute is after them what it was before. So on an instance where no
  other code has assigned it, and on every instance as the constructor leaves it,
  \<^verbatim>\<open>inverse_transform\<close> raises \<^verbatim>\<open>AttributeError\<close>.
\<close>

theorem inverse_transform_raises:
  "(attrs (snd w) ''G_inverse_'' = None \<longrightarrow>
      inverse_transform G y (invoke_all E ms w) = (Inl AttributeError, invoke_all E ms w)) \<and>
   inverse_transform G y (invoke_all E ms (snd (init E c h))) =
     (Inl AttributeError, invoke_all E ms (snd (init E c h)))"
  by (simp add: inverse_transform_def getattr_def invoke_all_G_inverse init_G_inverse)

lemma fitted_G_inverse: "attrs (snd fitted_world) ''G_inverse_'' = None"
  by code_simp

theorem inverse_transform_raises_witness:
  "attrs (snd fitted_world) ''G_inverse_'' = None \<and>
   fst (inverse_transform (Val PNone) (Val PNone)
          (invoke_all env_spec
             [Fit bad_labels_call, Transform (Val PNone) (Val PNone),
              Annotate_nodes [(''color'', PStr ''blue'')], Sample (Val PNone) (Val PNone),
              Fit_transform (Serialized two_nodes) (Val PNone)]
             fitted_world)) = Inl AttributeError"
  using inverse_transform_raises [of fitted_world "Val PNone" "Val PNone" env_spec
      "[Fit bad_labels_call, Transform (Val PNone) (Val PNone),
        Annotate_nodes [(''color'', PStr ''blue'')], Sample (Val PNone) (Val PNone),
        Fit_transform (Serialized two_nodes) (Val PNone)]"]
    fitted_G_inverse
  by simp



end
